theory Spec2Isabelle
  imports Complex_Main "HOL-Library.Sublist"
begin

section \<open>The iCODE bot: reminder scheduler and message relay\<close>

text \<open>
  A shallow embedding of \<^verbatim>\<open>src/bot.py\<close> (class \<^verbatim>\<open>ICodeBot\<close>): the handlers
  \<^verbatim>\<open>on_ready\<close>, \<^verbatim>\<open>on_bump_done\<close>, \<^verbatim>\<open>on_message\<close> and \<^verbatim>\<open>_animated_emojis\<close>.
  Calls into the chat platform are recorded in a list of effects, in the order the handler
  issues them; a call that can fail takes its outcome from an environment record, and an
  exception that leaves a handler is the \<open>Inl\<close> of its result.
\<close>

subsection \<open>Python values\<close>

datatype py_error = AttributeError | IndexError | TypeError | HTTPException

type_synonym snowflake = nat

text \<open>
  A \<^verbatim>\<open>datetime\<close> is a number of microseconds (its resolution); a \<^verbatim>\<open>timedelta\<close>
  is their difference, and \<^verbatim>\<open>total_seconds()\<close> divides by \<open>10^6\<close>. The quotient is
  kept exact here (a rational) where Python rounds it to a float.
\<close>

type_synonym datetime = int

definition total_seconds :: "int \<Rightarrow> rat" where
  "total_seconds td = of_int td / 1000000"

text \<open>\<^verbatim>\<open>int(x)\<close> on a number: truncation towards zero.\<close>

definition py_int :: "rat \<Rightarrow> int" where
  "py_int x = (if 0 \<le> x then \<lfloor>x\<rfloor> else \<lceil>x\<rceil>)"

subsection \<open>Startup: the initial reminder delay\<close>

text \<open>
  \<^verbatim>\<open>on_ready\<close>, lines 84 to 88, in the branch taken outside maintenance mode:
  \<^verbatim>\<open>
    previous_bump_time = self.bump_timer.get_bump_time()
    delta = (datetime.now() - previous_bump_time).total_seconds()
    delay = 0 if delta >= 7200 else (7200 - delta)
    self.dispatch("bump_done", int(delay))
  \<close>
  \<open>startup_delay\<close> is the value of \<^verbatim>\<open>delay\<close>, \<open>on_ready_delay\<close> the argument of the
  dispatch. \<^verbatim>\<open>get_bump_time\<close> is not part of the sources at hand; its result is the
  parameter \<open>previous_bump_time\<close>, a \<^verbatim>\<open>datetime\<close> as the subtraction needs.
\<close>

definition startup_delay :: "datetime \<Rightarrow> datetime \<Rightarrow> rat" where
  "startup_delay now previous_bump_time =
     (let delta = total_seconds (now - previous_bump_time)
      in if delta \<ge> 7200 then 0 else 7200 - delta)"

definition on_ready_delay :: "datetime \<Rightarrow> datetime \<Rightarrow> int" where
  "on_ready_delay now previous_bump_time = py_int (startup_delay now previous_bump_time)"

subsection \<open>Strings\<close>

text \<open>
  A message's text is a \<open>string\<close>, one \<open>char\<close> for each character with a code point
  below 256. \<open>is_space\<close> lists the characters of that range on which \<^verbatim>\<open>str.split()\<close>
  splits: tab, line feed, vertical tab, form feed, carriage return, the four separators
  \<open>0x1C\<close> to \<open>0x1F\<close>, space, \<open>0x85\<close> and \<open>0xA0\<close>.
\<close>

definition is_space :: "char \<Rightarrow> bool" where
  "is_space c = (of_char c \<in> {9, 10, 11, 12, 13, 28, 29, 30, 31, 32, 133, 160 :: nat})"

text \<open>
  \<^verbatim>\<open>s.split()\<close>: the maximal runs of characters that are not whitespace, in order;
  \<open>cur\<close> is the run being read.
\<close>

fun split_acc :: "string \<Rightarrow> string \<Rightarrow> string list" where
  "split_acc cur [] = (if cur = [] then [] else [cur])"
| "split_acc cur (c # cs) =
     (if is_space c
      then (if cur = [] then split_acc [] cs else cur # split_acc [] cs)
      else split_acc (cur @ [c]) cs)"

definition py_split :: "string \<Rightarrow> string list" where
  "py_split s = split_acc [] s"

text \<open>
  \<^verbatim>\<open>s.replace(old, new)\<close>: the occurrences of \<open>old\<close> are found from the left and do
  not overlap; the text put in is not searched again. With an empty \<open>old\<close>, \<open>new\<close> is put
  before every character and at the end.
\<close>

function py_replace :: "string \<Rightarrow> string \<Rightarrow> string \<Rightarrow> string" where
  "py_replace [] old new = (if old = [] then new else [])"
| "py_replace (c # cs) old new =
     (if old = [] then new @ c # py_replace cs old new
      else if prefix old (c # cs)
      then new @ py_replace (drop (length old) (c # cs)) old new
      else c # py_replace cs old new)"
  by pat_completeness auto
termination
  by (relation "measure (\<lambda>(s, old, new). length s)") auto

text \<open>\<^verbatim>\<open>s.count(c)\<close> for a single character, and the slice \<^verbatim>\<open>s[1:-1]\<close>.\<close>

definition py_count :: "string \<Rightarrow> char \<Rightarrow> nat" where
  "py_count s c = length (filter (\<lambda>x. x = c) s)"

definition slice_1_m1 :: "string \<Rightarrow> string" where
  "slice_1_m1 s = butlast (tl s)"

subsection \<open>The emoji catalog\<close>

text \<open>
  \<^verbatim>\<open>discord.Emoji\<close> is a class of the chat library; the handlers only take its
  \<^verbatim>\<open>str()\<close>, so an emoji is kept as that text.
\<close>

datatype emoji = Emoji string

fun str_emoji :: "emoji \<Rightarrow> string" where
  "str_emoji (Emoji s) = s"

type_synonym EmojiGroup = "string \<Rightarrow> emoji option"

text \<open>
  Modelled from the spec: \<^verbatim>\<open>EmojiGroup.get_emoji\<close> (\<^verbatim>\<open>utils/emoji.py\<close>) is not
  part of the sources at hand. The specification gives it the contract
  \<open>resolve(name) \<rightarrow> reference | miss\<close> over a table from names to references, and notes
  that a miss reaches the caller as a missing-attribute failure, the one exception the
  callers catch.
\<close>

definition get_emoji :: "EmojiGroup \<Rightarrow> string \<Rightarrow> py_error + emoji" where
  "get_emoji g name = (case g name of None \<Rightarrow> Inl AttributeError | Some e \<Rightarrow> Inr e)"

subsection \<open>Scanning a message for tokens\<close>

text \<open>
  The loop of \<^verbatim>\<open>_animated_emojis\<close>, lines 253 to 275. Its variables are the fields of
  \<open>scan_state\<close>: \<open>sc_content\<close> is \<^verbatim>\<open>message.content\<close>, \<open>sc_temp\<close> the list \<^verbatim>\<open>temp\<close>,
  \<open>sc_emoji\<close> the variable \<^verbatim>\<open>emoji\<close> (\<open>None\<close> at the start). \<open>sc_lookups\<close> is not a
  variable of the code: it records the names passed to \<^verbatim>\<open>get_emoji\<close>, in order.
  \<^verbatim>\<open>
    for word in message.content.split():
        if word[0] == word[-1] == ":" and len(word) > 2 and word not in temp:
            try:
                emoji: Emoji = self.emoji_group.get_emoji(word[1:-1])
                message.content = message.content.replace(word, str(emoji))
                temp.append(word)
            except AttributeError:
                pass
  \<close>
  \<^verbatim>\<open>word[0]\<close> raises \<^verbatim>\<open>IndexError\<close> on an empty word. The words are computed once,
  from the text the message has before the loop.
\<close>

record scan_state =
  sc_content :: string
  sc_temp :: "string list"
  sc_emoji :: "emoji option"
  sc_lookups :: "string list"

fun scan_word :: "EmojiGroup \<Rightarrow> scan_state \<Rightarrow> string \<Rightarrow> py_error + scan_state" where
  "scan_word g st [] = Inl IndexError"
| "scan_word g st (c # cs) =
     (let word = c # cs in
      if c = last word \<and> last word = CHR '':'' \<and> length word > 2 \<and> word \<notin> set (sc_temp st)
      then (case get_emoji g (slice_1_m1 word) of
              Inr e \<Rightarrow>
                Inr (st\<lparr>sc_emoji := Some e,
                        sc_content := py_replace (sc_content st) word (str_emoji e),
                        sc_temp := sc_temp st @ [word],
                        sc_lookups := sc_lookups st @ [slice_1_m1 word]\<rparr>)
            | Inl AttributeError \<Rightarrow> Inr (st\<lparr>sc_lookups := sc_lookups st @ [slice_1_m1 word]\<rparr>)
            | Inl err \<Rightarrow> Inl err)
      else Inr st)"

fun scan_words :: "EmojiGroup \<Rightarrow> scan_state \<Rightarrow> string list \<Rightarrow> py_error + scan_state" where
  "scan_words g st [] = Inr st"
| "scan_words g st (w # ws) =
     (case scan_word g st w of Inl err \<Rightarrow> Inl err | Inr st' \<Rightarrow> scan_words g st' ws)"

definition scan_start :: "string \<Rightarrow> scan_state" where
  "scan_start s = \<lparr>sc_content = s, sc_temp = [], sc_emoji = None, sc_lookups = []\<rparr>"

definition scan_message :: "EmojiGroup \<Rightarrow> string \<Rightarrow> py_error + scan_state" where
  "scan_message g s = scan_words g (scan_start s) (py_split s)"

text \<open>
  The condition of the loop's \<^verbatim>\<open>if\<close>, apart from the test on \<^verbatim>\<open>temp\<close>: a word of
  more than two characters that begins and ends with a colon.
\<close>

definition is_token :: "string \<Rightarrow> bool" where
  "is_token w = (w \<noteq> [] \<and> hd w = CHR '':'' \<and> last w = CHR '':'' \<and> length w > 2)"

text \<open>
  The tokenization policy in the words of the specification, for comparison with
  \<open>scan_word\<close>: a word is a candidate token iff its first and last characters are the
  delimiter, its length exceeds 2, and it has not already been substituted earlier in the
  same message; the delimiters are stripped and the name resolved; on a hit all
  occurrences of the token are replaced with the textual form of the reference, on a miss
  the text is left as it is and the scan goes on.
\<close>

definition spec_token_step :: "EmojiGroup \<Rightarrow> scan_state \<Rightarrow> string \<Rightarrow> scan_state" where
  "spec_token_step g st w =
     (if is_token w \<and> w \<notin> set (sc_temp st)
      then (case g (slice_1_m1 w) of
              Some e \<Rightarrow>
                st\<lparr>sc_emoji := Some e,
                   sc_content := py_replace (sc_content st) w (str_emoji e),
                   sc_temp := sc_temp st @ [w],
                   sc_lookups := sc_lookups st @ [slice_1_m1 w]\<rparr>
            | None \<Rightarrow> st\<lparr>sc_lookups := sc_lookups st @ [slice_1_m1 w]\<rparr>)
      else st)"

text \<open>Some word of the text is a token whose name the catalog resolves.\<close>

definition some_token_resolves :: "EmojiGroup \<Rightarrow> string \<Rightarrow> bool" where
  "some_token_resolves g s =
     (\<exists>w\<in>set (py_split s). is_token w \<and> g (slice_1_m1 w) \<noteq> None)"

subsection \<open>Messages, webhooks and the platform\<close>

text \<open>
  The fields of the library's objects that the handlers read. \<open>display_avatar\<close> is the
  avatar asset, kept as its URL. \<open>webhook_id\<close> is \<^verbatim>\<open>None\<close> or an id; \<open>embeds\<close> keeps
  each embed as its \<^verbatim>\<open>description\<close>, which may be \<^verbatim>\<open>None\<close>. \<open>wh_user_id\<close> is
  \<^verbatim>\<open>webhook.user.id\<close>.
\<close>

record user =
  user_id :: snowflake
  display_name :: string
  display_avatar :: string

record message =
  content :: string
  webhook_id :: "snowflake option"
  author :: user
  channel :: snowflake
  embeds :: "string option list"

record webhook =
  wh_id :: snowflake
  wh_user_id :: snowflake

text \<open>
  A text channel as \<^verbatim>\<open>on_bump_done\<close> uses it: its id and the roles of its guild, each
  kept as its \<^verbatim>\<open>mention\<close>.
\<close>

record text_channel =
  tc_id :: snowflake
  tc_get_role :: "snowflake \<Rightarrow> string option"

text \<open>
  The calls a handler makes into the platform, in the order it makes them. A call is
  recorded when it is issued, whether it succeeds or raises.
\<close>

datatype effect =
    ChannelWebhooks snowflake
  | AvatarRead string
  | CreateWebhook snowflake string string string
  | WebhookSend snowflake string string string
  | MessageDelete
  | UpdateBumpTime datetime
  | Dispatch string int
  | Sleep int
  | ChannelSend snowflake string string string

text \<open>
  The effects that send a message through a webhook, and the effects that start a timer:
  the dispatch of an event (the only one the handlers dispatch is \<open>bump_done\<close>) and the
  sleep.
\<close>

fun is_send :: "effect \<Rightarrow> bool" where
  "is_send (WebhookSend wh text username avatar_url) = True"
| "is_send e = False"

fun arms_timer :: "effect \<Rightarrow> bool" where
  "arms_timer (Dispatch event delay) = True"
| "arms_timer (Sleep delay) = True"
| "arms_timer e = False"

text \<open>
  The outcome of each call that can fail (\<open>Inl\<close>: the exception it raises), and the
  channel cache behind \<^verbatim>\<open>get_channel\<close>. \<open>webhooks_result\<close> is what
  \<^verbatim>\<open>channel.webhooks()\<close> returns, \<open>avatar_read_result\<close> the bytes of the author's avatar.
\<close>

record env =
  webhooks_result :: "py_error + webhook list"
  avatar_read_result :: "py_error + string"
  create_webhook_result :: "py_error + webhook"
  webhook_send_result :: "py_error + unit"
  delete_result :: "py_error + unit"
  get_channel :: "snowflake \<Rightarrow> text_channel option"
  channel_send_result :: "py_error + unit"

text \<open>
  The identifiers of \<^verbatim>\<open>utils/constants.py\<close>, which is not part of the sources at hand:
  they are parameters.
\<close>

record constants =
  DISBOARD_ID :: snowflake
  TERMINAL_CHANNEL_ID :: snowflake
  BUMPER_ROLE_ID :: snowflake

text \<open>
  Modelled from the spec: the class \<^verbatim>\<open>BumpTimer\<close> (\<^verbatim>\<open>utils/bump_timer.py\<close>) is not
  part of the sources at hand. The specification gives the timestamp store the contract
  \<open>get() \<rightarrow> timestamp | absent\<close>, \<open>set(timestamp)\<close> over a single record, a later
  \<open>get\<close> returning what was \<open>set\<close>. The attribute \<open>running\<close> is the one the handlers of
  \<^verbatim>\<open>bot.py\<close> assign.
\<close>

record BumpTimer =
  running :: bool
  bump_time :: "datetime option"

definition update_bump_time :: "datetime \<Rightarrow> BumpTimer \<Rightarrow> BumpTimer" where
  "update_bump_time t bt = bt\<lparr>bump_time := Some t\<rparr>"

definition get_bump_time :: "BumpTimer \<Rightarrow> datetime option" where
  "get_bump_time bt = bump_time bt"

text \<open>
  The attributes of the bot. \<open>MAINTENANCE_CHANNEL\<close> is the result of a
  \<^verbatim>\<open>get_channel\<close>, a channel or \<^verbatim>\<open>None\<close>; \<open>bot_user_id\<close> is \<^verbatim>\<open>self.user.id\<close>.
\<close>

record bot =
  MAINTENANCE_MODE :: bool
  MAINTENANCE_CHANNEL :: "snowflake option"
  bot_user_id :: snowflake
  emoji_group :: EmojiGroup
  bump_timer :: BumpTimer

subsection \<open>The message relay\<close>

text \<open>
  \<^verbatim>\<open>_animated_emojis\<close>, lines 277 to 308, after the loop:
  \<^verbatim>\<open>
    if emoji:
        webhooks = await message.channel.webhooks()
        for webhook in webhooks:
            if webhook.user.id == self.user.id:
                break
        else:
            avatar: bytes = await message.author.display_avatar.read()
            webhook: Webhook = await message.channel.create_webhook(
                name="iCODE-BOT", avatar=avatar, reason="Animated Emoji Usage")
        await webhook.send(content=message.content,
                           username=message.author.display_name,
                           avatar_url=message.author.display_avatar)
        await message.delete()
  \<close>
  None of the calls is inside a \<^verbatim>\<open>try\<close>: an exception leaves the handler at the
  call that raises it. \<open>find_own\<close> is the \<^verbatim>\<open>for\<close> loop, \<open>None\<close> when it ends without
  \<^verbatim>\<open>break\<close>.
\<close>

fun find_own :: "snowflake \<Rightarrow> webhook list \<Rightarrow> webhook option" where
  "find_own uid [] = None"
| "find_own uid (w # ws) = (if wh_user_id w = uid then Some w else find_own uid ws)"

definition get_webhook :: "env \<Rightarrow> bot \<Rightarrow> message \<Rightarrow> (py_error + webhook) \<times> effect list" where
  "get_webhook ev b m =
     (case webhooks_result ev of
        Inl err \<Rightarrow> (Inl err, [ChannelWebhooks (channel m)])
      | Inr webhooks \<Rightarrow>
          (case find_own (bot_user_id b) webhooks of
             Some wh \<Rightarrow> (Inr wh, [ChannelWebhooks (channel m)])
           | None \<Rightarrow>
               (case avatar_read_result ev of
                  Inl err \<Rightarrow>
                    (Inl err, [ChannelWebhooks (channel m), AvatarRead (display_avatar (author m))])
                | Inr avatar \<Rightarrow>
                    (create_webhook_result ev,
                     [ChannelWebhooks (channel m), AvatarRead (display_avatar (author m)),
                      CreateWebhook (channel m) ''iCODE-BOT'' avatar ''Animated Emoji Usage'']))))"

definition send_and_delete :: "env \<Rightarrow> message \<Rightarrow> webhook \<Rightarrow> (py_error + unit) \<times> effect list" where
  "send_and_delete ev m wh =
     (let send = WebhookSend (wh_id wh) (content m)
                   (display_name (author m)) (display_avatar (author m))
      in case webhook_send_result ev of
           Inl err \<Rightarrow> (Inl err, [send])
         | Inr _ \<Rightarrow> (delete_result ev, [send, MessageDelete]))"

record relay_out =
  r_result :: "py_error + unit"
  r_message :: message
  r_effects :: "effect list"
  r_lookups :: "string list"

text \<open>
  The whole of \<^verbatim>\<open>_animated_emojis\<close>. \<open>r_message\<close> is the message object after the call,
  with the text the loop has left in it. The first case, a loop that raises, keeps nothing
  of the loop's work; the words of a split are never empty, so it is never taken (lemma
  \<open>scan_message_spec\<close> below).
\<close>

definition animated_emojis :: "env \<Rightarrow> bot \<Rightarrow> message \<Rightarrow> relay_out" where
  "animated_emojis ev b m =
     (case scan_message (emoji_group b) (content m) of
        Inl err \<Rightarrow> \<lparr>r_result = Inl err, r_message = m, r_effects = [], r_lookups = []\<rparr>
      | Inr st \<Rightarrow>
          (let m' = m\<lparr>content := sc_content st\<rparr> in
           case sc_emoji st of
             None \<Rightarrow>
               \<lparr>r_result = Inr (), r_message = m', r_effects = [], r_lookups = sc_lookups st\<rparr>
           | Some _ \<Rightarrow>
               (case get_webhook ev b m' of
                  (Inl err, effs) \<Rightarrow>
                    \<lparr>r_result = Inl err, r_message = m', r_effects = effs,
                     r_lookups = sc_lookups st\<rparr>
                | (Inr wh, effs) \<Rightarrow>
                    (case send_and_delete ev m' wh of
                       (res, effs') \<Rightarrow>
                         \<lparr>r_result = res, r_message = m', r_effects = effs @ effs',
                          r_lookups = sc_lookups st\<rparr>))))"

subsection \<open>The message handler\<close>

text \<open>
  \<^verbatim>\<open>on_message\<close>:
  \<^verbatim>\<open>
    if (self.MAINTENANCE_MODE and message.channel != self.MAINTENANCE_CHANNEL):
        return
    if message.webhook_id:
        if message.author.id == DISBOARD_ID:
            if "Bump done" in message.embeds[0].description:
                self.bump_timer.update_bump_time(datetime.now())
                self.dispatch("bump_done", 7200)
        return
    if message.content.count(":") > 1:
        await self._animated_emojis(message)
  \<close>
  An id is true as a condition unless it is \<^verbatim>\<open>None\<close> or 0. \<^verbatim>\<open>embeds[0]\<close> raises
  \<^verbatim>\<open>IndexError\<close> on a message without embeds, and \<^verbatim>\<open>in\<close> raises \<^verbatim>\<open>TypeError\<close> on
  a description that is \<^verbatim>\<open>None\<close>. \<open>now\<close> is the value of \<^verbatim>\<open>datetime.now()\<close>.
\<close>

definition truthy_id :: "snowflake option \<Rightarrow> bool" where
  "truthy_id i = (case i of None \<Rightarrow> False | Some n \<Rightarrow> n \<noteq> 0)"

fun py_in :: "string \<Rightarrow> string \<Rightarrow> bool" where
  "py_in sub [] = (sub = [])"
| "py_in sub (c # cs) = (prefix sub (c # cs) \<or> py_in sub cs)"

record message_out =
  m_result :: "py_error + unit"
  m_bot :: bot
  m_message :: message
  m_effects :: "effect list"
  m_lookups :: "string list"

definition finished :: "bot \<Rightarrow> message \<Rightarrow> message_out" where
  "finished b m =
     \<lparr>m_result = Inr (), m_bot = b, m_message = m, m_effects = [], m_lookups = []\<rparr>"

definition on_message :: "constants \<Rightarrow> env \<Rightarrow> datetime \<Rightarrow> bot \<Rightarrow> message \<Rightarrow> message_out" where
  "on_message K ev now b m =
     (if MAINTENANCE_MODE b \<and> Some (channel m) \<noteq> MAINTENANCE_CHANNEL b then finished b m
      else if truthy_id (webhook_id m) then
        (if user_id (author m) = DISBOARD_ID K then
           (case embeds m of
              [] \<Rightarrow> (finished b m)\<lparr>m_result := Inl IndexError\<rparr>
            | None # _ \<Rightarrow> (finished b m)\<lparr>m_result := Inl TypeError\<rparr>
            | Some description # _ \<Rightarrow>
                if py_in ''Bump done'' description
                then (finished b m)
                       \<lparr>m_bot := b\<lparr>bump_timer := update_bump_time now (bump_timer b)\<rparr>,
                        m_effects := [UpdateBumpTime now, Dispatch ''bump_done'' 7200]\<rparr>
                else finished b m)
         else finished b m)
      else if py_count (content m) CHR '':'' > 1 then
        (let r = animated_emojis ev b m
         in \<lparr>m_result = r_result r, m_bot = b, m_message = r_message r,
             m_effects = r_effects r, m_lookups = r_lookups r\<rparr>)
      else finished b m)"

subsection \<open>The reminder timer\<close>

text \<open>
  \<^verbatim>\<open>on_bump_done\<close>:
  \<^verbatim>\<open>
    self.bump_timer.running = True
    await asyncio.sleep(delay=delay)
    self.bump_timer.running = False
    channel: TextChannel = self.get_channel(TERMINAL_CHANNEL_ID)
    bumper: Role = channel.guild.get_role(BUMPER_ROLE_ID)
    reminder: Emoji = self.emoji_group.get_emoji("reminder")
    await channel.send(content=f"{bumper.mention}",
        embed=Embed(title=f"Bump Reminder {reminder}",
                    description="Help grow this server. Run `/bump`", color=Colors.GOLD))
  \<close>
  The coroutine gives up control once, at the \<^verbatim>\<open>sleep\<close>: \<open>on_bump_done_arm\<close> is the part
  that runs before it, \<open>on_bump_done_fire\<close> the part that runs when the sleep is over.
  Other handlers, and other runs of this one, may run in between. A channel or a role that
  is not found is \<^verbatim>\<open>None\<close>, and reading an attribute of it raises
  \<^verbatim>\<open>AttributeError\<close>. Nothing here is inside a \<^verbatim>\<open>try\<close>. The colour of the embed is
  left out.
\<close>

record timer_out =
  t_result :: "py_error + unit"
  t_bot :: bot
  t_effects :: "effect list"

definition set_running :: "bool \<Rightarrow> bot \<Rightarrow> bot" where
  "set_running v b = b\<lparr>bump_timer := (bump_timer b)\<lparr>running := v\<rparr>\<rparr>"

definition on_bump_done_arm :: "int \<Rightarrow> bot \<Rightarrow> timer_out" where
  "on_bump_done_arm delay b =
     \<lparr>t_result = Inr (), t_bot = set_running True b, t_effects = [Sleep delay]\<rparr>"

definition on_bump_done_fire :: "constants \<Rightarrow> env \<Rightarrow> bot \<Rightarrow> timer_out" where
  "on_bump_done_fire K ev b =
     (let b' = set_running False b in
      case get_channel ev (TERMINAL_CHANNEL_ID K) of
        None \<Rightarrow> \<lparr>t_result = Inl AttributeError, t_bot = b', t_effects = []\<rparr>
      | Some ch \<Rightarrow>
          (let bumper = tc_get_role ch (BUMPER_ROLE_ID K) in
           case get_emoji (emoji_group b') ''reminder'' of
             Inl err \<Rightarrow> \<lparr>t_result = Inl err, t_bot = b', t_effects = []\<rparr>
           | Inr reminder \<Rightarrow>
               (case bumper of
                  None \<Rightarrow> \<lparr>t_result = Inl AttributeError, t_bot = b', t_effects = []\<rparr>
                | Some mention \<Rightarrow>
                    \<lparr>t_result = channel_send_result ev, t_bot = b',
                     t_effects = [ChannelSend (tc_id ch) mention
                                    (''Bump Reminder '' @ str_emoji reminder)
                                    ''Help grow this server. Run `/bump`'']\<rparr>)))"

text \<open>One run of \<^verbatim>\<open>on_bump_done\<close> with nothing else running during its sleep.\<close>

definition on_bump_done :: "constants \<Rightarrow> env \<Rightarrow> int \<Rightarrow> bot \<Rightarrow> timer_out" where
  "on_bump_done K ev delay b =
     (let a = on_bump_done_arm delay b; f = on_bump_done_fire K ev (t_bot a)
      in f\<lparr>t_effects := t_effects a @ t_effects f\<rparr>)"

subsection \<open>Example values\<close>

text \<open>
  A catalog with the two emojis \<open>smile\<close> and \<open>reminder\<close>, a bot with the user id 1, a
  message of the user \<open>ann\<close> in channel 5, and a platform on which every call succeeds:
  channel 5 has two webhooks, the second one owned by the bot.
\<close>

definition demo_catalog :: EmojiGroup where
  "demo_catalog =
     (\<lambda>name. if name = ''smile'' then Some (Emoji ''<a:smile:7>'')
             else if name = ''reminder'' then Some (Emoji ''<:reminder:8>'')
             else None)"

definition demo_bot :: bot where
  "demo_bot =
     \<lparr>MAINTENANCE_MODE = False, MAINTENANCE_CHANNEL = None, bot_user_id = 1,
      emoji_group = demo_catalog, bump_timer = \<lparr>running = False, bump_time = Some 0\<rparr>\<rparr>"

definition demo_message :: "string \<Rightarrow> message" where
  "demo_message s =
     \<lparr>content = s, webhook_id = None,
      author = \<lparr>user_id = 42, display_name = ''ann'', display_avatar = ''cdn/ann.png''\<rparr>,
      channel = 5, embeds = []\<rparr>"

definition demo_constants :: constants where
  "demo_constants = \<lparr>DISBOARD_ID = 302, TERMINAL_CHANNEL_ID = 3, BUMPER_ROLE_ID = 4\<rparr>"

definition demo_env :: env where
  "demo_env =
     \<lparr>webhooks_result = Inr [\<lparr>wh_id = 11, wh_user_id = 99\<rparr>, \<lparr>wh_id = 12, wh_user_id = 1\<rparr>],
      avatar_read_result = Inr ''PNG'',
      create_webhook_result = Inr \<lparr>wh_id = 13, wh_user_id = 1\<rparr>,
      webhook_send_result = Inr (),
      delete_result = Inr (),
      get_channel =
        (\<lambda>i. if i = 3
             then Some \<lparr>tc_id = 3, tc_get_role = (\<lambda>r. if r = 4 then Some ''<@&4>'' else None)\<rparr>
             else None),
      channel_send_result = Inr ()\<rparr>"

text \<open>A confirmation of the bump, as the listing service posts it through its webhook.\<close>

definition bump_message :: message where
  "bump_message =
     \<lparr>content = [], webhook_id = Some 77,
      author = \<lparr>user_id = 302, display_name = ''DISBOARD'', display_avatar = ''cdn/d.png''\<rparr>,
      channel = 5, embeds = [Some ''Bump done! :thumbsup:'']\<rparr>"

section \<open>Properties\<close>

subsection \<open>The initial delay\<close>

lemma startup_delay_max:
  "startup_delay now prev = max 0 (7200 - total_seconds (now - prev))"
  by (simp add: startup_delay_def Let_def max_def)

lemma startup_delay_nonneg: "0 \<le> startup_delay now prev"
  by (simp add: startup_delay_def Let_def)

lemma startup_delay_upper:
  "prev \<le> now \<Longrightarrow> startup_delay now prev \<le> 7200"
  by (simp add: startup_delay_def Let_def total_seconds_def)

text \<open>
  Claim C1, as the code has it. For every \<open>now\<close> and every stored \<open>lastTriggerTime\<close> the
  delay computed at startup equals \<open>max(0, 7200 - (now - lastTriggerTime))\<close> and is never
  negative; it is at most 7200 when the stored time is not later than \<open>now\<close>. The handler
  dispatches the delay truncated to whole seconds, which obeys the same bounds.
\<close>

theorem initial_delay_formula_and_bounds:
  "startup_delay now prev = max 0 (7200 - total_seconds (now - prev))
   \<and> 0 \<le> startup_delay now prev
   \<and> (prev \<le> now \<longrightarrow> startup_delay now prev \<le> 7200)
   \<and> on_ready_delay now prev = \<lfloor>startup_delay now prev\<rfloor>
   \<and> 0 \<le> on_ready_delay now prev
   \<and> (prev \<le> now \<longrightarrow> on_ready_delay now prev \<le> 7200)"
proof -
  have nonneg: "0 \<le> startup_delay now prev"
    by (rule startup_delay_nonneg)
  have trunc: "on_ready_delay now prev = \<lfloor>startup_delay now prev\<rfloor>"
    using nonneg by (simp add: on_ready_delay_def py_int_def)
  have lower: "0 \<le> on_ready_delay now prev"
    using nonneg by (simp add: trunc)
  have upper: "on_ready_delay now prev \<le> 7200" if "prev \<le> now"
  proof -
    have "startup_delay now prev \<le> of_int 7200"
      using startup_delay_upper [OF that] by simp
    then have "\<lfloor>startup_delay now prev\<rfloor> \<le> 7200"
      by (metis floor_mono floor_of_int)
    then show ?thesis by (simp add: trunc)
  qed
  show ?thesis
    using startup_delay_max startup_delay_nonneg startup_delay_upper trunc lower upper
    by blast
qed

text \<open>
  The two scenarios of the specification: a trigger 9000 seconds ago gives no delay, a
  trigger 1000 seconds ago gives 6200 seconds.
\<close>

theorem initial_delay_formula_and_bounds_witness:
  "on_ready_delay 9000000000 0 = 0 \<and> startup_delay 9000000000 0 = 0
   \<and> on_ready_delay 1000000000 0 = 6200 \<and> startup_delay 1000000000 0 = 6200
   \<and> startup_delay 1000000000 0 \<le> 7200 \<and> on_ready_delay 1000000000 0 \<le> 7200"
  using initial_delay_formula_and_bounds [of 9000000000 0]
    initial_delay_formula_and_bounds [of 1000000000 0]
  by (simp add: total_seconds_def)

text \<open>
  The claim as written bounds the delay by 7200 for every pair of times. A stored time
  1000 seconds later than \<open>now\<close> gives 8200 seconds.
\<close>

theorem initial_delay_above_period_counterexample:
  "on_ready_delay 0 1000000000 = 8200 \<and> startup_delay 0 1000000000 = 8200
   \<and> \<not> (startup_delay 0 1000000000 \<le> 7200)"
  by (simp add: on_ready_delay_def startup_delay_def total_seconds_def py_int_def Let_def)

subsection \<open>Splitting and replacing\<close>

lemma split_acc_no_empty: "[] \<notin> set (split_acc cur s)"
  by (induction s arbitrary: cur) auto

lemma py_split_no_empty: "[] \<notin> set (py_split s)"
  by (simp add: py_split_def split_acc_no_empty)

lemma split_acc_no_space:
  "\<forall>c\<in>set cur. \<not> is_space c \<Longrightarrow> w \<in> set (split_acc cur s) \<Longrightarrow> c \<in> set w \<Longrightarrow> \<not> is_space c"
proof (induction s arbitrary: cur)
  case Nil
  then show ?case by (auto split: if_splits)
next
  case (Cons x xs)
  show ?case
  proof (cases "is_space x")
    case True
    then have "w = cur \<or> w \<in> set (split_acc [] xs)"
      using Cons.prems(2) by (auto split: if_splits)
    then show ?thesis
    proof
      assume "w = cur"
      then show ?thesis using Cons.prems(1,3) by blast
    next
      assume "w \<in> set (split_acc [] xs)"
      then show ?thesis using Cons.IH [of "[]"] Cons.prems(3) by simp
    qed
  next
    case False
    then have "w \<in> set (split_acc (cur @ [x]) xs)"
      using Cons.prems(2) by simp
    moreover have "\<forall>c\<in>set (cur @ [x]). \<not> is_space c"
      using Cons.prems(1) False by simp
    ultimately show ?thesis using Cons.IH Cons.prems(3) by blast
  qed
qed

lemma py_split_no_space: "w \<in> set (py_split s) \<Longrightarrow> c \<in> set w \<Longrightarrow> \<not> is_space c"
  using split_acc_no_space [of "[]" w s c] by (simp add: py_split_def)

lemma py_replace_self: "w \<noteq> [] \<Longrightarrow> py_replace w w new = new"
  by (cases w) simp_all

lemma prefix_before_sep:
  assumes "prefix w (a @ c # b)" and "c \<notin> set w"
  shows "prefix w a"
proof -
  from assms(1) consider "prefix w a" | us where "w = a @ us" "prefix us (c # b)"
    by (auto simp: prefix_append)
  then show ?thesis
  proof cases
    case 1
    then show ?thesis .
  next
    case 2
    then have "us = []"
      using assms(2) by (cases us) auto
    with 2 show ?thesis by simp
  qed
qed

text \<open>
  A character that does not occur in \<open>old\<close> separates the text: the replacement works on
  the two sides independently.
\<close>

lemma py_replace_sep:
  "w \<noteq> [] \<Longrightarrow> c \<notin> set w \<Longrightarrow>
     py_replace (a @ c # b) w new = py_replace a w new @ c # py_replace b w new"
proof (induction a w new rule: py_replace.induct)
  case (1 old new)
  then have "\<not> prefix old (c # b)"
    by (cases old) auto
  with 1 show ?case by simp
next
  case (2 x xs old new)
  show ?case
  proof (cases "prefix old (x # xs)")
    case True
    then have whole: "prefix old ((x # xs) @ c # b)"
      by (rule prefix_prefix)
    have len: "length old \<le> length (x # xs)"
      using True by (rule prefix_length_le)
    have d: "drop (length old) (x # xs @ c # b) = drop (length old) (x # xs) @ c # b"
      using len drop_append [of "length old" "x # xs" "c # b"] by simp
    have "py_replace ((x # xs) @ c # b) old new
          = new @ py_replace (drop (length old) (x # xs @ c # b)) old new"
      using whole "2.prems"(1) by simp
    also have "\<dots> = new @ py_replace (drop (length old) (x # xs) @ c # b) old new"
      by (simp only: d)
    also have "\<dots> = new @ py_replace (drop (length old) (x # xs)) old new
                       @ c # py_replace b old new"
      using "2.IH"(2) [OF "2.prems"(1) True "2.prems"] by simp
    also have "\<dots> = py_replace (x # xs) old new @ c # py_replace b old new"
      using True "2.prems"(1) by simp
    finally show ?thesis .
  next
    case False
    have "\<not> prefix old ((x # xs) @ c # b)"
    proof
      assume "prefix old ((x # xs) @ c # b)"
      then have "prefix old (x # xs)"
        using "2.prems"(2) by (rule prefix_before_sep)
      with False show False by contradiction
    qed
    then have "py_replace ((x # xs) @ c # b) old new = x # py_replace (xs @ c # b) old new"
      using "2.prems"(1) by simp
    also have "\<dots> = x # py_replace xs old new @ c # py_replace b old new"
      using "2.IH"(3) [OF "2.prems"(1) False "2.prems"] by simp
    also have "\<dots> = py_replace (x # xs) old new @ c # py_replace b old new"
      using False "2.prems"(1) by simp
    finally show ?thesis .
  qed
qed

subsection \<open>The scan follows the tokenization policy\<close>

lemma scan_word_spec:
  "w \<noteq> [] \<Longrightarrow> scan_word g st w = Inr (spec_token_step g st w)"
proof (cases w)
  case Nil
  assume "w \<noteq> []"
  with Nil show ?thesis by simp
next
  case (Cons c cs)
  have cond_eq:
    "(c = last (c # cs) \<and> last (c # cs) = CHR '':'' \<and> 2 < length (c # cs)
        \<and> c # cs \<notin> set (sc_temp st))
     = (is_token (c # cs) \<and> c # cs \<notin> set (sc_temp st))"
    by (auto simp: is_token_def)
  show ?thesis
    unfolding Cons scan_word.simps Let_def cond_eq spec_token_step_def get_emoji_def
    by (cases "g (slice_1_m1 (c # cs))") simp_all
qed

lemma scan_words_spec:
  "[] \<notin> set ws \<Longrightarrow> scan_words g st ws = Inr (foldl (spec_token_step g) st ws)"
proof (induction ws arbitrary: st)
  case Nil
  show ?case by simp
next
  case (Cons w ws)
  then have "w \<noteq> []" and rest: "[] \<notin> set ws" by auto
  then show ?case
    by (simp add: scan_word_spec Cons.IH [OF rest])
qed

lemma scan_message_spec:
  "scan_message g s = Inr (foldl (spec_token_step g) (scan_start s) (py_split s))"
  by (simp add: scan_message_def scan_words_spec py_split_no_empty)

lemma token_name_nonempty: "is_token w \<Longrightarrow> slice_1_m1 w \<noteq> []"
proof -
  assume "is_token w"
  then have "2 < length w"
    by (simp add: is_token_def)
  moreover have "length (slice_1_m1 w) = length w - 2"
    by (simp add: slice_1_m1_def)
  ultimately show ?thesis by auto
qed

lemma not_token_colons: "\<not> is_token ''::''"
  by (simp add: is_token_def)

lemma step_keeps_invariant:
  "''::'' \<notin> set (sc_temp st) \<and> [] \<notin> set (sc_lookups st) \<Longrightarrow>
   ''::'' \<notin> set (sc_temp (spec_token_step g st w))
   \<and> [] \<notin> set (sc_lookups (spec_token_step g st w))"
  using token_name_nonempty [of w] not_token_colons
  by (auto simp: spec_token_step_def split: option.splits)

lemma fold_keeps_invariant:
  "''::'' \<notin> set (sc_temp st) \<and> [] \<notin> set (sc_lookups st) \<Longrightarrow>
   ''::'' \<notin> set (sc_temp (foldl (spec_token_step g) st ws))
   \<and> [] \<notin> set (sc_lookups (foldl (spec_token_step g) st ws))"
proof (induction ws arbitrary: st)
  case Nil
  then show ?case by simp
next
  case (Cons w ws)
  show ?case
    using Cons.IH [OF step_keeps_invariant [OF Cons.prems]] by simp
qed

lemma fold_no_hit:
  "\<forall>w\<in>set ws. is_token w \<longrightarrow> g (slice_1_m1 w) = None \<Longrightarrow>
   foldl (spec_token_step g) st ws =
     st\<lparr>sc_lookups := sc_lookups st
          @ map slice_1_m1 (filter (\<lambda>w. is_token w \<and> w \<notin> set (sc_temp st)) ws)\<rparr>"
proof (induction ws arbitrary: st)
  case Nil
  show ?case by simp
next
  case (Cons w ws)
  have rest: "\<forall>w\<in>set ws. is_token w \<longrightarrow> g (slice_1_m1 w) = None"
    using Cons.prems by simp
  show ?case
  proof (cases "is_token w \<and> w \<notin> set (sc_temp st)")
    case True
    then have miss: "g (slice_1_m1 w) = None"
      using Cons.prems by simp
    have step: "spec_token_step g st w = st\<lparr>sc_lookups := sc_lookups st @ [slice_1_m1 w]\<rparr>"
      using True miss by (simp add: spec_token_step_def)
    show ?thesis
      using True by (simp add: step Cons.IH [OF rest])
  next
    case False
    then have step: "spec_token_step g st w = st"
      unfolding spec_token_step_def by (simp only: if_False)
    show ?thesis
      using False by (simp add: step Cons.IH [OF rest])
  qed
qed

lemma fold_emoji:
  "sc_emoji (foldl (spec_token_step g) st ws) \<noteq> None \<longleftrightarrow>
     sc_emoji st \<noteq> None
     \<or> (\<exists>w\<in>set ws. is_token w \<and> w \<notin> set (sc_temp st) \<and> g (slice_1_m1 w) \<noteq> None)"
proof (induction ws arbitrary: st)
  case Nil
  show ?case by simp
next
  case (Cons w ws)
  show ?case
  proof (cases "is_token w \<and> w \<notin> set (sc_temp st) \<and> g (slice_1_m1 w) \<noteq> None")
    case True
    then have "sc_emoji (spec_token_step g st w) \<noteq> None"
      by (auto simp: spec_token_step_def)
    then show ?thesis
      using True Cons.IH [of "spec_token_step g st w"] by auto
  next
    case False
    then have same: "sc_emoji (spec_token_step g st w) = sc_emoji st
                     \<and> sc_temp (spec_token_step g st w) = sc_temp st"
      by (auto simp: spec_token_step_def)
    show ?thesis
      using False same Cons.IH [of "spec_token_step g st w"] by auto
  qed
qed

lemma scan_message_no_hit:
  assumes "\<not> some_token_resolves g s"
  shows "scan_message g s =
           Inr ((scan_start s)\<lparr>sc_lookups := map slice_1_m1 (filter is_token (py_split s))\<rparr>)"
proof -
  have "\<forall>w\<in>set (py_split s). is_token w \<longrightarrow> g (slice_1_m1 w) = None"
    using assms by (auto simp: some_token_resolves_def)
  then show ?thesis
    by (simp add: scan_message_spec fold_no_hit scan_start_def)
qed

lemma scan_message_hit:
  assumes "some_token_resolves g s"
  shows "\<exists>st e. scan_message g s = Inr st \<and> sc_emoji st = Some e"
proof -
  from assms obtain w
    where "w \<in> set (py_split s)" "is_token w" "g (slice_1_m1 w) \<noteq> None"
    by (auto simp: some_token_resolves_def)
  moreover have "sc_temp (scan_start s) = []"
    by (simp add: scan_start_def)
  ultimately have "\<exists>w\<in>set (py_split s).
      is_token w \<and> w \<notin> set (sc_temp (scan_start s)) \<and> g (slice_1_m1 w) \<noteq> None"
    by auto
  then have "sc_emoji (foldl (spec_token_step g) (scan_start s) (py_split s)) \<noteq> None"
    using fold_emoji [of g "scan_start s" "py_split s"] by blast
  then show ?thesis
    by (auto simp: scan_message_spec)
qed

text \<open>
  Claim C2. A whitespace-split word is treated as a candidate token iff its first and
  last characters are a colon, its length exceeds 2, and the same word has not already
  been substituted earlier in the message; on a hit all occurrences of the word are
  replaced by the textual form of the emoji, and on a miss the text is left as it is and
  the scan goes on: the loop of the code is the policy \<open>spec_token_step\<close> applied to the
  words in order, and it never raises. The word \<open>::\<close> is never resolved: the scan leaves
  the state as it is on it, no message has it among its substituted words, and the empty
  name is never looked up. The replacement turns every word equal to the token into the
  new text, whitespace keeping the words apart.
\<close>

theorem token_scan_follows_policy:
  "scan_message g s = Inr (foldl (spec_token_step g) (scan_start s) (py_split s))
   \<and> (w \<noteq> [] \<longrightarrow> scan_word g st w = Inr (spec_token_step g st w))
   \<and> scan_word g st ''::'' = Inr st
   \<and> ''::'' \<notin> set (sc_temp (foldl (spec_token_step g) (scan_start s) (py_split s)))
   \<and> [] \<notin> set (sc_lookups (foldl (spec_token_step g) (scan_start s) (py_split s)))
   \<and> (w \<in> set (py_split s) \<longrightarrow> py_replace w w new = new)
   \<and> (w \<in> set (py_split s) \<and> is_space c \<longrightarrow>
        py_replace (a @ c # b) w new = py_replace a w new @ c # py_replace b w new)"
proof -
  have colons: "scan_word g st ''::'' = Inr st"
    by (simp add: scan_word_spec spec_token_step_def not_token_colons)
  have inv: "''::'' \<notin> set (sc_temp (foldl (spec_token_step g) (scan_start s) (py_split s)))
             \<and> [] \<notin> set (sc_lookups (foldl (spec_token_step g) (scan_start s) (py_split s)))"
    by (rule fold_keeps_invariant) (simp add: scan_start_def)
  have self: "py_replace w w new = new" if "w \<in> set (py_split s)"
  proof -
    have "w \<noteq> []" using that py_split_no_empty by metis
    then show ?thesis by (rule py_replace_self)
  qed
  have sep: "py_replace (a @ c # b) w new = py_replace a w new @ c # py_replace b w new"
    if "w \<in> set (py_split s)" and "is_space c"
  proof -
    have "w \<noteq> []" using that(1) py_split_no_empty by metis
    moreover have "c \<notin> set w" using that py_split_no_space by metis
    ultimately show ?thesis by (rule py_replace_sep)
  qed
  show ?thesis
    using scan_message_spec [of g s] scan_word_spec [of w g st] colons inv self sep
    by blast
qed

theorem token_scan_follows_policy_witness:
  "scan_message demo_catalog ''a :smile: :: :nope: :smile:'' =
     Inr \<lparr>sc_content = ''a <a:smile:7> :: :nope: <a:smile:7>'', sc_temp = ['':smile:''],
          sc_emoji = Some (Emoji ''<a:smile:7>''), sc_lookups = [''smile'', ''nope'']\<rparr>
   \<and> '':smile:'' \<in> set (py_split ''a :smile: :: :nope: :smile:'')
   \<and> is_space CHR '' ''
   \<and> scan_word demo_catalog (scan_start ''x'') '':smile:'' =
       Inr \<lparr>sc_content = ''x'', sc_temp = ['':smile:''],
            sc_emoji = Some (Emoji ''<a:smile:7>''), sc_lookups = [''smile'']\<rparr>
   \<and> scan_word demo_catalog (scan_start ''x'') ''::'' = Inr (scan_start ''x'')
   \<and> py_replace '':smile:'' '':smile:'' ''R'' = ''R''
   \<and> py_replace (''a'' @ CHR '' '' # '':smile:'') '':smile:'' ''R'' = ''a R''"
  using token_scan_follows_policy
    [where g = demo_catalog and s = "''a :smile: :: :nope: :smile:''" and w = "'':smile:''"
       and st = "scan_start ''x''" and new = "''R''" and c = "CHR '' ''" and a = "''a''"
       and b = "'':smile:''"]
  by (simp add: spec_token_step_def is_token_def py_split_def is_space_def demo_catalog_def
      slice_1_m1_def scan_start_def)

subsection \<open>The round trip of a repeated token\<close>

lemma relay_after_scan:
  "scan_message (emoji_group b) (content m) = Inr st \<Longrightarrow>
     r_message (animated_emojis ev b m) = m\<lparr>content := sc_content st\<rparr>
     \<and> r_lookups (animated_emojis ev b m) = sc_lookups st"
  by (simp add: animated_emojis_def Let_def split: option.splits prod.splits sum.splits)

lemma smile_scan:
  assumes "g ''smile'' = Some (Emoji R)"
  shows "scan_message g ''hello :smile: world :smile:'' =
     Inr \<lparr>sc_content = ''hello '' @ R @ '' world '' @ R, sc_temp = ['':smile:''],
          sc_emoji = Some (Emoji R), sc_lookups = [''smile'']\<rparr>"
  using assms
  by (simp add: scan_message_def scan_start_def py_split_def is_space_def get_emoji_def
      slice_1_m1_def Let_def)

text \<open>
  Claim C8. With a catalog in which \<open>smile\<close> resolves to an emoji whose text is \<open>R\<close>, the
  message \<open>hello :smile: world :smile:\<close> is rewritten to \<open>hello R world R\<close>, and the one
  lookup the scan performs is the lookup of \<open>smile\<close>: the second occurrence of the word is
  skipped, the first replacement having rewritten it already. The relay leaves this text
  in the message, whatever happens to its calls afterwards.
\<close>

theorem smile_round_trip:
  "g ''smile'' = Some (Emoji R) \<longrightarrow>
     scan_message g ''hello :smile: world :smile:'' =
       Inr \<lparr>sc_content = ''hello '' @ R @ '' world '' @ R, sc_temp = ['':smile:''],
            sc_emoji = Some (Emoji R), sc_lookups = [''smile'']\<rparr>
     \<and> (emoji_group b = g \<and> content m = ''hello :smile: world :smile:'' \<longrightarrow>
          content (r_message (animated_emojis ev b m)) = ''hello '' @ R @ '' world '' @ R
          \<and> r_lookups (animated_emojis ev b m) = [''smile'']
          \<and> length (filter (\<lambda>name. name = ''smile'') (r_lookups (animated_emojis ev b m))) = 1)"
proof (intro impI conjI)
  assume g: "g ''smile'' = Some (Emoji R)"
  show "scan_message g ''hello :smile: world :smile:'' =
       Inr \<lparr>sc_content = ''hello '' @ R @ '' world '' @ R, sc_temp = ['':smile:''],
            sc_emoji = Some (Emoji R), sc_lookups = [''smile'']\<rparr>"
    using g by (rule smile_scan)
  assume bm: "emoji_group b = g \<and> content m = ''hello :smile: world :smile:''"
  have scan: "scan_message (emoji_group b) (content m) =
       Inr \<lparr>sc_content = ''hello '' @ R @ '' world '' @ R, sc_temp = ['':smile:''],
            sc_emoji = Some (Emoji R), sc_lookups = [''smile'']\<rparr>"
    using bm g smile_scan [of g R] by simp
  show "content (r_message (animated_emojis ev b m)) = ''hello '' @ R @ '' world '' @ R"
    using relay_after_scan [OF scan, of ev] by simp
  show lookups: "r_lookups (animated_emojis ev b m) = [''smile'']"
    using relay_after_scan [OF scan, of ev] by simp
  show "length (filter (\<lambda>name. name = ''smile'') (r_lookups (animated_emojis ev b m))) = 1"
    by (simp add: lookups)
qed

theorem smile_round_trip_witness:
  "demo_catalog ''smile'' = Some (Emoji ''<a:smile:7>'')
   \<and> scan_message demo_catalog ''hello :smile: world :smile:'' =
       Inr \<lparr>sc_content = ''hello <a:smile:7> world <a:smile:7>'', sc_temp = ['':smile:''],
            sc_emoji = Some (Emoji ''<a:smile:7>''), sc_lookups = [''smile'']\<rparr>
   \<and> content (r_message (animated_emojis demo_env demo_bot
         (demo_message ''hello :smile: world :smile:''))) = ''hello <a:smile:7> world <a:smile:7>''
   \<and> r_lookups (animated_emojis demo_env demo_bot
         (demo_message ''hello :smile: world :smile:'')) = [''smile'']"
  using smile_round_trip
    [where g = demo_catalog and R = "''<a:smile:7>''" and b = demo_bot
       and m = "demo_message ''hello :smile: world :smile:''" and ev = demo_env]
  by (simp add: demo_catalog_def demo_bot_def demo_message_def)

subsection \<open>Messages in which nothing resolves\<close>

lemma relay_no_hit:
  assumes "\<not> some_token_resolves (emoji_group b) (content m)"
  shows "animated_emojis ev b m =
           \<lparr>r_result = Inr (), r_message = m, r_effects = [],
            r_lookups = map slice_1_m1 (filter is_token (py_split (content m)))\<rparr>"
  by (simp add: animated_emojis_def scan_message_no_hit [OF assms] scan_start_def)

text \<open>
  Claim C3. When no token of a message resolves, the relay has no effect: it lists and
  creates no webhook, sends nothing and does not delete the message, whose text stays as
  it was; it returns normally, having looked up the names of the tokens only. The same
  holds of the whole message handler on a message that no webhook has sent.
\<close>

theorem no_resolution_no_effects:
  "(\<not> some_token_resolves (emoji_group b) (content m) \<longrightarrow>
      animated_emojis ev b m =
        \<lparr>r_result = Inr (), r_message = m, r_effects = [],
         r_lookups = map slice_1_m1 (filter is_token (py_split (content m)))\<rparr>)
   \<and> (\<not> some_token_resolves (emoji_group b) (content m) \<and> \<not> truthy_id (webhook_id m) \<longrightarrow>
        m_result (on_message K ev now b m) = Inr ()
        \<and> m_message (on_message K ev now b m) = m
        \<and> m_bot (on_message K ev now b m) = b
        \<and> m_effects (on_message K ev now b m) = [])"
proof (intro conjI impI)
  assume "\<not> some_token_resolves (emoji_group b) (content m)"
  then show "animated_emojis ev b m =
        \<lparr>r_result = Inr (), r_message = m, r_effects = [],
         r_lookups = map slice_1_m1 (filter is_token (py_split (content m)))\<rparr>"
    by (rule relay_no_hit)
next
  assume h: "\<not> some_token_resolves (emoji_group b) (content m) \<and> \<not> truthy_id (webhook_id m)"
  then have relay: "animated_emojis ev b m =
        \<lparr>r_result = Inr (), r_message = m, r_effects = [],
         r_lookups = map slice_1_m1 (filter is_token (py_split (content m)))\<rparr>"
    using relay_no_hit by blast
  show "m_result (on_message K ev now b m) = Inr ()"
    using h by (simp add: on_message_def finished_def relay Let_def)
  show "m_message (on_message K ev now b m) = m"
    using h by (simp add: on_message_def finished_def relay Let_def)
  show "m_bot (on_message K ev now b m) = b"
    using h by (simp add: on_message_def finished_def relay Let_def)
  show "m_effects (on_message K ev now b m) = []"
    using h by (simp add: on_message_def finished_def relay Let_def)
qed

text \<open>
  A message whose only token is unknown to the catalog: one lookup, no effect, the text as
  it was.
\<close>

theorem no_resolution_no_effects_witness:
  "\<not> some_token_resolves demo_catalog ''hi :unknownname:''
   \<and> \<not> truthy_id (webhook_id (demo_message ''hi :unknownname:''))
   \<and> animated_emojis demo_env demo_bot (demo_message ''hi :unknownname:'') =
       \<lparr>r_result = Inr (), r_message = demo_message ''hi :unknownname:'', r_effects = [],
        r_lookups = [''unknownname'']\<rparr>
   \<and> m_effects (on_message demo_constants demo_env 0 demo_bot
        (demo_message ''hi :unknownname:'')) = []
   \<and> m_message (on_message demo_constants demo_env 0 demo_bot
        (demo_message ''hi :unknownname:'')) = demo_message ''hi :unknownname:''"
proof -
  have miss: "\<not> some_token_resolves (emoji_group demo_bot)
                  (content (demo_message ''hi :unknownname:''))"
    by (simp add: some_token_resolves_def demo_bot_def demo_message_def demo_catalog_def
        py_split_def is_space_def is_token_def slice_1_m1_def)
  have hook: "\<not> truthy_id (webhook_id (demo_message ''hi :unknownname:''))"
    by (simp add: truthy_id_def demo_message_def)
  have words: "map slice_1_m1 (filter is_token (py_split (content (demo_message ''hi :unknownname:''))))
               = [''unknownname'']"
    by (simp add: demo_message_def py_split_def is_space_def is_token_def slice_1_m1_def)
  show ?thesis
    using no_resolution_no_effects
      [where b = demo_bot and m = "demo_message ''hi :unknownname:''" and ev = demo_env
         and K = demo_constants and now = 0]
      miss hook words
    by (simp add: demo_bot_def demo_message_def)
qed

subsection \<open>Obtaining the webhook\<close>

lemma find_own_first:
  "find_own uid whs = Some wh \<Longrightarrow>
     \<exists>pre post. whs = pre @ wh # post \<and> wh_user_id wh = uid
                \<and> (\<forall>x\<in>set pre. wh_user_id x \<noteq> uid)"
proof (induction whs)
  case Nil
  then show ?case by simp
next
  case (Cons w ws)
  show ?case
  proof (cases "wh_user_id w = uid")
    case True
    then have "wh = w" using Cons.prems by simp
    then have "w # ws = [] @ wh # ws \<and> wh_user_id wh = uid \<and> (\<forall>x\<in>set []. wh_user_id x \<noteq> uid)"
      using True by simp
    then show ?thesis by blast
  next
    case False
    then have "find_own uid ws = Some wh" using Cons.prems by simp
    then obtain pre post where rest: "ws = pre @ wh # post" "wh_user_id wh = uid"
        "\<forall>x\<in>set pre. wh_user_id x \<noteq> uid"
      using Cons.IH by blast
    then have "w # ws = (w # pre) @ wh # post \<and> wh_user_id wh = uid
               \<and> (\<forall>x\<in>set (w # pre). wh_user_id x \<noteq> uid)"
      using False by simp
    then show ?thesis by blast
  qed
qed

lemma find_own_None:
  "find_own uid whs = None \<longleftrightarrow> (\<forall>wh\<in>set whs. wh_user_id wh \<noteq> uid)"
  by (induction whs) auto

lemma get_webhook_content: "get_webhook ev b (m\<lparr>content := c\<rparr>) = get_webhook ev b m"
  by (simp add: get_webhook_def split: sum.splits option.splits)

lemma get_webhook_reuse:
  assumes "webhooks_result ev = Inr whs" and "\<exists>wh\<in>set whs. wh_user_id wh = bot_user_id b"
  shows "\<exists>wh pre post. whs = pre @ wh # post \<and> wh_user_id wh = bot_user_id b
           \<and> (\<forall>x\<in>set pre. wh_user_id x \<noteq> bot_user_id b)
           \<and> get_webhook ev b m = (Inr wh, [ChannelWebhooks (channel m)])"
proof -
  have "find_own (bot_user_id b) whs \<noteq> None"
    using assms(2) find_own_None by blast
  then obtain wh where found: "find_own (bot_user_id b) whs = Some wh"
    by auto
  then have "get_webhook ev b m = (Inr wh, [ChannelWebhooks (channel m)])"
    using assms(1) by (simp add: get_webhook_def)
  then show ?thesis
    using find_own_first [OF found] by blast
qed

lemma get_webhook_create:
  assumes "webhooks_result ev = Inr whs" and "\<forall>wh\<in>set whs. wh_user_id wh \<noteq> bot_user_id b"
    and "avatar_read_result ev = Inr avatar"
  shows "get_webhook ev b m =
           (create_webhook_result ev,
            [ChannelWebhooks (channel m), AvatarRead (display_avatar (author m)),
             CreateWebhook (channel m) ''iCODE-BOT'' avatar ''Animated Emoji Usage''])"
proof -
  have "find_own (bot_user_id b) whs = None"
    using assms(2) find_own_None by blast
  then show ?thesis
    using assms(1,3) by (simp add: get_webhook_def)
qed

lemma get_webhook_no_send:
  "e \<in> set (snd (get_webhook ev b m)) \<Longrightarrow> \<not> is_send e \<and> e \<noteq> MessageDelete"
  by (auto simp: get_webhook_def split: sum.splits option.splits)

text \<open>What the relay does once a token has resolved, in terms of its two parts.\<close>

lemma relay_hit:
  assumes "some_token_resolves (emoji_group b) (content m)"
  shows "r_result (animated_emojis ev b m) =
           (case fst (get_webhook ev b m) of
              Inl err \<Rightarrow> Inl err
            | Inr wh \<Rightarrow> fst (send_and_delete ev (r_message (animated_emojis ev b m)) wh))"
    and "r_effects (animated_emojis ev b m) =
           (case fst (get_webhook ev b m) of
              Inl err \<Rightarrow> snd (get_webhook ev b m)
            | Inr wh \<Rightarrow> snd (get_webhook ev b m)
                        @ snd (send_and_delete ev (r_message (animated_emojis ev b m)) wh))"
proof -
  obtain st e where scan: "scan_message (emoji_group b) (content m) = Inr st"
      and hit: "sc_emoji st = Some e"
    using scan_message_hit [OF assms] by blast
  obtain res effs where gw: "get_webhook ev b m = (res, effs)"
    by (cases "get_webhook ev b m") simp
  show "r_result (animated_emojis ev b m) =
           (case fst (get_webhook ev b m) of
              Inl err \<Rightarrow> Inl err
            | Inr wh \<Rightarrow> fst (send_and_delete ev (r_message (animated_emojis ev b m)) wh))"
    by (cases res)
      (simp_all add: animated_emojis_def scan hit gw get_webhook_content Let_def
        split: prod.splits)
  show "r_effects (animated_emojis ev b m) =
           (case fst (get_webhook ev b m) of
              Inl err \<Rightarrow> snd (get_webhook ev b m)
            | Inr wh \<Rightarrow> snd (get_webhook ev b m)
                        @ snd (send_and_delete ev (r_message (animated_emojis ev b m)) wh))"
    by (cases res)
      (simp_all add: animated_emojis_def scan hit gw get_webhook_content Let_def
        split: prod.splits)
qed

text \<open>
  Claim C5. The relay lists the webhooks of the channel. If one of them is owned by the
  bot, the first such webhook is reused and nothing is created; otherwise the avatar of
  the author of the message is read and a webhook named \<open>iCODE-BOT\<close> is created in the
  channel of the message with that avatar. When a token has resolved, the message is
  sent through the webhook obtained in this way.
\<close>

theorem proxy_reused_or_created:
  "(webhooks_result ev = Inr whs \<and> (\<exists>wh\<in>set whs. wh_user_id wh = bot_user_id b) \<longrightarrow>
      (\<exists>wh pre post. whs = pre @ wh # post \<and> wh_user_id wh = bot_user_id b
           \<and> (\<forall>x\<in>set pre. wh_user_id x \<noteq> bot_user_id b)
           \<and> get_webhook ev b m = (Inr wh, [ChannelWebhooks (channel m)])))
   \<and> (webhooks_result ev = Inr whs \<and> (\<forall>wh\<in>set whs. wh_user_id wh \<noteq> bot_user_id b)
        \<and> avatar_read_result ev = Inr avatar \<longrightarrow>
        get_webhook ev b m =
          (create_webhook_result ev,
           [ChannelWebhooks (channel m), AvatarRead (display_avatar (author m)),
            CreateWebhook (channel m) ''iCODE-BOT'' avatar ''Animated Emoji Usage'']))
   \<and> (some_token_resolves (emoji_group b) (content m) \<and> fst (get_webhook ev b m) = Inr used \<longrightarrow>
        r_effects (animated_emojis ev b m) =
          snd (get_webhook ev b m)
          @ snd (send_and_delete ev (r_message (animated_emojis ev b m)) used)
        \<and> hd (snd (send_and_delete ev (r_message (animated_emojis ev b m)) used)) =
            WebhookSend (wh_id used) (content (r_message (animated_emojis ev b m)))
              (display_name (author (r_message (animated_emojis ev b m))))
              (display_avatar (author (r_message (animated_emojis ev b m)))))"
proof (intro conjI impI)
  assume "webhooks_result ev = Inr whs \<and> (\<exists>wh\<in>set whs. wh_user_id wh = bot_user_id b)"
  then show "\<exists>wh pre post. whs = pre @ wh # post \<and> wh_user_id wh = bot_user_id b
           \<and> (\<forall>x\<in>set pre. wh_user_id x \<noteq> bot_user_id b)
           \<and> get_webhook ev b m = (Inr wh, [ChannelWebhooks (channel m)])"
    using get_webhook_reuse by blast
next
  assume "webhooks_result ev = Inr whs \<and> (\<forall>wh\<in>set whs. wh_user_id wh \<noteq> bot_user_id b)
        \<and> avatar_read_result ev = Inr avatar"
  then show "get_webhook ev b m =
          (create_webhook_result ev,
           [ChannelWebhooks (channel m), AvatarRead (display_avatar (author m)),
            CreateWebhook (channel m) ''iCODE-BOT'' avatar ''Animated Emoji Usage''])"
    using get_webhook_create by blast
next
  assume h: "some_token_resolves (emoji_group b) (content m) \<and> fst (get_webhook ev b m) = Inr used"
  then show "r_effects (animated_emojis ev b m) =
          snd (get_webhook ev b m)
          @ snd (send_and_delete ev (r_message (animated_emojis ev b m)) used)"
    using relay_hit(2) [of b m ev] by simp
  show "hd (snd (send_and_delete ev (r_message (animated_emojis ev b m)) used)) =
            WebhookSend (wh_id used) (content (r_message (animated_emojis ev b m)))
              (display_name (author (r_message (animated_emojis ev b m))))
              (display_avatar (author (r_message (animated_emojis ev b m))))"
    by (simp add: send_and_delete_def Let_def split: sum.splits)
qed

text \<open>
  On the example platform the bot owns the second webhook of the channel, which is
  reused; with the first webhook alone, one is created with the avatar read.
\<close>

theorem proxy_reused_or_created_witness:
  "get_webhook demo_env demo_bot (demo_message ''hi :smile:'') =
     (Inr \<lparr>wh_id = 12, wh_user_id = 1\<rparr>, [ChannelWebhooks 5])
   \<and> get_webhook (demo_env\<lparr>webhooks_result := Inr [\<lparr>wh_id = 11, wh_user_id = 99\<rparr>]\<rparr>) demo_bot
        (demo_message ''hi :smile:'') =
       (Inr \<lparr>wh_id = 13, wh_user_id = 1\<rparr>,
        [ChannelWebhooks 5, AvatarRead ''cdn/ann.png'',
         CreateWebhook 5 ''iCODE-BOT'' ''PNG'' ''Animated Emoji Usage''])
   \<and> r_effects (animated_emojis demo_env demo_bot (demo_message ''hi :smile:'')) =
       [ChannelWebhooks 5, WebhookSend 12 ''hi <a:smile:7>'' ''ann'' ''cdn/ann.png'',
        MessageDelete]"
proof -
  have hit: "some_token_resolves (emoji_group demo_bot) (content (demo_message ''hi :smile:''))"
    by (simp add: some_token_resolves_def demo_bot_def demo_message_def demo_catalog_def
        py_split_def is_space_def is_token_def slice_1_m1_def)
  have rewritten: "content (r_message (animated_emojis demo_env demo_bot (demo_message ''hi :smile:'')))
              = ''hi <a:smile:7>''"
    by (simp add: animated_emojis_def scan_message_def scan_start_def py_split_def is_space_def
        get_emoji_def slice_1_m1_def Let_def demo_bot_def demo_message_def demo_catalog_def
        split: prod.splits sum.splits)
  have reuse: "get_webhook demo_env demo_bot (demo_message ''hi :smile:'') =
     (Inr \<lparr>wh_id = 12, wh_user_id = 1\<rparr>, [ChannelWebhooks 5])"
    using proxy_reused_or_created
      [where ev = demo_env and b = demo_bot and m = "demo_message ''hi :smile:''"
         and whs = "[\<lparr>wh_id = 11, wh_user_id = 99\<rparr>, \<lparr>wh_id = 12, wh_user_id = 1\<rparr>]"]
    by (simp add: get_webhook_def demo_env_def demo_bot_def demo_message_def)
  have create: "get_webhook (demo_env\<lparr>webhooks_result := Inr [\<lparr>wh_id = 11, wh_user_id = 99\<rparr>]\<rparr>)
        demo_bot (demo_message ''hi :smile:'') =
       (Inr \<lparr>wh_id = 13, wh_user_id = 1\<rparr>,
        [ChannelWebhooks 5, AvatarRead ''cdn/ann.png'',
         CreateWebhook 5 ''iCODE-BOT'' ''PNG'' ''Animated Emoji Usage''])"
    using proxy_reused_or_created
      [where ev = "demo_env\<lparr>webhooks_result := Inr [\<lparr>wh_id = 11, wh_user_id = 99\<rparr>]\<rparr>"
         and b = demo_bot and m = "demo_message ''hi :smile:''"
         and whs = "[\<lparr>wh_id = 11, wh_user_id = 99\<rparr>]" and avatar = "''PNG''"]
    by (simp add: demo_env_def demo_bot_def demo_message_def)
  have sent: "r_effects (animated_emojis demo_env demo_bot (demo_message ''hi :smile:'')) =
       [ChannelWebhooks 5, WebhookSend 12 ''hi <a:smile:7>'' ''ann'' ''cdn/ann.png'',
        MessageDelete]"
    using proxy_reused_or_created
      [where ev = demo_env and b = demo_bot and m = "demo_message ''hi :smile:''"
         and used = "\<lparr>wh_id = 12, wh_user_id = 1\<rparr>"]
      hit reuse rewritten
    by (simp add: send_and_delete_def Let_def demo_env_def)
       (simp add: animated_emojis_def scan_message_def scan_start_def py_split_def is_space_def
        get_emoji_def slice_1_m1_def Let_def demo_bot_def demo_message_def demo_catalog_def
        split: prod.splits sum.splits)
  show ?thesis
    using reuse create sent by blast
qed

subsection \<open>Failures of the relay's calls\<close>

lemma delete_only_after_send:
  "MessageDelete \<in> set (snd (send_and_delete ev m wh)) \<Longrightarrow> webhook_send_result ev = Inr ()"
  by (auto simp: send_and_delete_def Let_def split: sum.splits)

lemma relay_delete_only_after_send:
  assumes "MessageDelete \<in> set (r_effects (animated_emojis ev b m))"
  shows "webhook_send_result ev = Inr ()"
proof (cases "some_token_resolves (emoji_group b) (content m)")
  case False
  then have "r_effects (animated_emojis ev b m) = []"
    by (simp add: relay_no_hit)
  with assms show ?thesis by simp
next
  case True
  show ?thesis
  proof (cases "fst (get_webhook ev b m)")
    case (Inl err)
    then have "r_effects (animated_emojis ev b m) = snd (get_webhook ev b m)"
      using relay_hit(2) [OF True, of ev] by simp
    then show ?thesis
      using assms get_webhook_no_send by metis
  next
    case (Inr wh)
    then have "r_effects (animated_emojis ev b m) =
        snd (get_webhook ev b m)
        @ snd (send_and_delete ev (r_message (animated_emojis ev b m)) wh)"
      using relay_hit(2) [OF True, of ev] by simp
    then have "MessageDelete \<in> set (snd (send_and_delete ev (r_message (animated_emojis ev b m)) wh))"
      using assms get_webhook_no_send [of MessageDelete ev b m] by auto
    then show ?thesis by (rule delete_only_after_send)
  qed
qed

lemma get_webhook_list_fails:
  "webhooks_result ev = Inl err \<Longrightarrow>
     get_webhook ev b m = (Inl err, [ChannelWebhooks (channel m)])"
  by (simp add: get_webhook_def)

lemma get_webhook_read_fails:
  assumes "webhooks_result ev = Inr whs" and "\<forall>wh\<in>set whs. wh_user_id wh \<noteq> bot_user_id b"
    and "avatar_read_result ev = Inl err"
  shows "get_webhook ev b m =
           (Inl err, [ChannelWebhooks (channel m), AvatarRead (display_avatar (author m))])"
proof -
  have "find_own (bot_user_id b) whs = None"
    using assms(2) by (induction whs) auto
  then show ?thesis
    using assms(1,3) by (simp add: get_webhook_def)
qed

lemma get_webhook_create_fails:
  assumes "webhooks_result ev = Inr whs" and "\<forall>wh\<in>set whs. wh_user_id wh \<noteq> bot_user_id b"
    and "avatar_read_result ev = Inr avatar" and "create_webhook_result ev = Inl err"
  shows "get_webhook ev b m =
           (Inl err,
            [ChannelWebhooks (channel m), AvatarRead (display_avatar (author m)),
             CreateWebhook (channel m) ''iCODE-BOT'' avatar ''Animated Emoji Usage''])"
proof -
  have "find_own (bot_user_id b) whs = None"
    using assms(2) by (induction whs) auto
  then show ?thesis
    using assms(1,3,4) by (simp add: get_webhook_def)
qed

text \<open>
  Claim C4, as the code has it. No call of the relay is inside a \<^verbatim>\<open>try\<close>: a transport
  failure in a step (listing the webhooks, reading the avatar, creating the webhook,
  sending, deleting) is not caught in the relay. It ends the handler at that step, as the
  exception that leaves it, and no later step runs: the effects stop at the call that
  failed. In particular the message is deleted only after a send that succeeded: a failed
  send leaves the original message in place.
\<close>

theorem relay_failure_ends_handler:
  "(some_token_resolves (emoji_group b) (content m) \<and> webhooks_result ev = Inl err \<longrightarrow>
      r_result (animated_emojis ev b m) = Inl err
      \<and> r_effects (animated_emojis ev b m) = [ChannelWebhooks (channel m)])
   \<and> (some_token_resolves (emoji_group b) (content m) \<and> webhooks_result ev = Inr whs
        \<and> (\<forall>x\<in>set whs. wh_user_id x \<noteq> bot_user_id b)
        \<and> avatar_read_result ev = Inl err \<longrightarrow>
        r_result (animated_emojis ev b m) = Inl err
        \<and> r_effects (animated_emojis ev b m) =
            [ChannelWebhooks (channel m), AvatarRead (display_avatar (author m))])
   \<and> (some_token_resolves (emoji_group b) (content m) \<and> webhooks_result ev = Inr whs
        \<and> (\<forall>x\<in>set whs. wh_user_id x \<noteq> bot_user_id b)
        \<and> avatar_read_result ev = Inr avatar \<and> create_webhook_result ev = Inl err \<longrightarrow>
        r_result (animated_emojis ev b m) = Inl err
        \<and> r_effects (animated_emojis ev b m) =
            [ChannelWebhooks (channel m), AvatarRead (display_avatar (author m)),
             CreateWebhook (channel m) ''iCODE-BOT'' avatar ''Animated Emoji Usage''])
   \<and> (some_token_resolves (emoji_group b) (content m) \<and> fst (get_webhook ev b m) = Inl err \<longrightarrow>
        r_result (animated_emojis ev b m) = Inl err
        \<and> r_effects (animated_emojis ev b m) = snd (get_webhook ev b m)
        \<and> (\<forall>e\<in>set (r_effects (animated_emojis ev b m)). \<not> is_send e \<and> e \<noteq> MessageDelete))
   \<and> (webhooks_result ev = Inl err \<longrightarrow>
        get_webhook ev b m = (Inl err, [ChannelWebhooks (channel m)]))
   \<and> (some_token_resolves (emoji_group b) (content m) \<and> fst (get_webhook ev b m) = Inr wh
        \<and> webhook_send_result ev = Inl err \<longrightarrow>
        r_result (animated_emojis ev b m) = Inl err
        \<and> r_effects (animated_emojis ev b m) =
            snd (get_webhook ev b m)
            @ [WebhookSend (wh_id wh) (content (r_message (animated_emojis ev b m)))
                 (display_name (author (r_message (animated_emojis ev b m))))
                 (display_avatar (author (r_message (animated_emojis ev b m))))]
        \<and> MessageDelete \<notin> set (r_effects (animated_emojis ev b m)))
   \<and> (some_token_resolves (emoji_group b) (content m) \<and> fst (get_webhook ev b m) = Inr wh
        \<and> webhook_send_result ev = Inr () \<longrightarrow>
        r_result (animated_emojis ev b m) = delete_result ev
        \<and> r_effects (animated_emojis ev b m) =
            snd (get_webhook ev b m)
            @ [WebhookSend (wh_id wh) (content (r_message (animated_emojis ev b m)))
                 (display_name (author (r_message (animated_emojis ev b m))))
                 (display_avatar (author (r_message (animated_emojis ev b m)))),
               MessageDelete]
        \<and> last (r_effects (animated_emojis ev b m)) = MessageDelete)
   \<and> (MessageDelete \<in> set (r_effects (animated_emojis ev b m)) \<longrightarrow>
        webhook_send_result ev = Inr ())"
proof (intro conjI impI)
  assume h: "some_token_resolves (emoji_group b) (content m) \<and> webhooks_result ev = Inl err"
  then have gw: "get_webhook ev b m = (Inl err, [ChannelWebhooks (channel m)])"
    by (simp add: get_webhook_def)
  show "r_result (animated_emojis ev b m) = Inl err"
    using h relay_hit(1) [of b m ev] by (simp add: gw)
  show "r_effects (animated_emojis ev b m) = [ChannelWebhooks (channel m)]"
    using h relay_hit(2) [of b m ev] by (simp add: gw)
next
  assume h: "some_token_resolves (emoji_group b) (content m) \<and> webhooks_result ev = Inr whs
        \<and> (\<forall>x\<in>set whs. wh_user_id x \<noteq> bot_user_id b)
        \<and> avatar_read_result ev = Inl err"
  then have gw: "get_webhook ev b m =
      (Inl err, [ChannelWebhooks (channel m), AvatarRead (display_avatar (author m))])"
    using get_webhook_read_fails by blast
  show "r_result (animated_emojis ev b m) = Inl err"
    using h relay_hit(1) [of b m ev] by (simp add: gw)
  show "r_effects (animated_emojis ev b m) =
            [ChannelWebhooks (channel m), AvatarRead (display_avatar (author m))]"
    using h relay_hit(2) [of b m ev] by (simp add: gw)
next
  assume h: "some_token_resolves (emoji_group b) (content m) \<and> webhooks_result ev = Inr whs
        \<and> (\<forall>x\<in>set whs. wh_user_id x \<noteq> bot_user_id b)
        \<and> avatar_read_result ev = Inr avatar \<and> create_webhook_result ev = Inl err"
  then have gw: "get_webhook ev b m =
      (Inl err,
       [ChannelWebhooks (channel m), AvatarRead (display_avatar (author m)),
        CreateWebhook (channel m) ''iCODE-BOT'' avatar ''Animated Emoji Usage''])"
    using get_webhook_create_fails by blast
  show "r_result (animated_emojis ev b m) = Inl err"
    using h relay_hit(1) [of b m ev] by (simp add: gw)
  show "r_effects (animated_emojis ev b m) =
            [ChannelWebhooks (channel m), AvatarRead (display_avatar (author m)),
             CreateWebhook (channel m) ''iCODE-BOT'' avatar ''Animated Emoji Usage'']"
    using h relay_hit(2) [of b m ev] by (simp add: gw)
next
  assume h: "some_token_resolves (emoji_group b) (content m) \<and> fst (get_webhook ev b m) = Inl err"
  show "r_result (animated_emojis ev b m) = Inl err"
    using h relay_hit(1) [of b m ev] by simp
  show effs: "r_effects (animated_emojis ev b m) = snd (get_webhook ev b m)"
    using h relay_hit(2) [of b m ev] by simp
  show "\<forall>e\<in>set (r_effects (animated_emojis ev b m)). \<not> is_send e \<and> e \<noteq> MessageDelete"
    unfolding effs using get_webhook_no_send by blast
next
  assume "webhooks_result ev = Inl err"
  then show "get_webhook ev b m = (Inl err, [ChannelWebhooks (channel m)])"
    by (simp add: get_webhook_def)
next
  assume h: "some_token_resolves (emoji_group b) (content m) \<and> fst (get_webhook ev b m) = Inr wh
        \<and> webhook_send_result ev = Inl err"
  show "r_result (animated_emojis ev b m) = Inl err"
    using h relay_hit(1) [of b m ev] by (simp add: send_and_delete_def Let_def)
  show "r_effects (animated_emojis ev b m) =
            snd (get_webhook ev b m)
            @ [WebhookSend (wh_id wh) (content (r_message (animated_emojis ev b m)))
                 (display_name (author (r_message (animated_emojis ev b m))))
                 (display_avatar (author (r_message (animated_emojis ev b m))))]"
    using h relay_hit(2) [of b m ev] by (simp add: send_and_delete_def Let_def)
  show "MessageDelete \<notin> set (r_effects (animated_emojis ev b m))"
    using h relay_delete_only_after_send [of ev b m] by auto
next
  assume h: "some_token_resolves (emoji_group b) (content m) \<and> fst (get_webhook ev b m) = Inr wh
        \<and> webhook_send_result ev = Inr ()"
  show "r_result (animated_emojis ev b m) = delete_result ev"
    using h relay_hit(1) [of b m ev] by (simp add: send_and_delete_def Let_def)
  show "r_effects (animated_emojis ev b m) =
            snd (get_webhook ev b m)
            @ [WebhookSend (wh_id wh) (content (r_message (animated_emojis ev b m)))
                 (display_name (author (r_message (animated_emojis ev b m))))
                 (display_avatar (author (r_message (animated_emojis ev b m)))),
               MessageDelete]"
    using h relay_hit(2) [of b m ev] by (simp add: send_and_delete_def Let_def)
  show "last (r_effects (animated_emojis ev b m)) = MessageDelete"
    using h relay_hit(2) [of b m ev] by (simp add: send_and_delete_def Let_def)
next
  assume "MessageDelete \<in> set (r_effects (animated_emojis ev b m))"
  then show "webhook_send_result ev = Inr ()"
    by (rule relay_delete_only_after_send)
qed

text \<open>
  On the example platform: a send that fails leaves the handler as the exception, after
  the listing and the attempt to send, nothing more; and in a channel where the bot owns
  no webhook, a failure to read the avatar ends the handler before anything is created,
  sent or deleted.
\<close>

theorem relay_failure_ends_handler_witness:
  "some_token_resolves (emoji_group demo_bot) (content (demo_message ''hi :smile:''))
   \<and> fst (get_webhook (demo_env\<lparr>webhook_send_result := Inl HTTPException\<rparr>) demo_bot
        (demo_message ''hi :smile:'')) = Inr \<lparr>wh_id = 12, wh_user_id = 1\<rparr>
   \<and> r_result (animated_emojis (demo_env\<lparr>webhook_send_result := Inl HTTPException\<rparr>) demo_bot
        (demo_message ''hi :smile:'')) = Inl HTTPException
   \<and> MessageDelete \<notin> set (r_effects (animated_emojis
        (demo_env\<lparr>webhook_send_result := Inl HTTPException\<rparr>) demo_bot
        (demo_message ''hi :smile:'')))
   \<and> r_result (animated_emojis
        (demo_env\<lparr>webhooks_result := Inr [\<lparr>wh_id = 11, wh_user_id = 99\<rparr>],
                  avatar_read_result := Inl HTTPException\<rparr>) demo_bot
        (demo_message ''hi :smile:'')) = Inl HTTPException
   \<and> r_effects (animated_emojis
        (demo_env\<lparr>webhooks_result := Inr [\<lparr>wh_id = 11, wh_user_id = 99\<rparr>],
                  avatar_read_result := Inl HTTPException\<rparr>) demo_bot
        (demo_message ''hi :smile:'')) = [ChannelWebhooks 5, AvatarRead ''cdn/ann.png'']"
proof -
  have hit: "some_token_resolves (emoji_group demo_bot) (content (demo_message ''hi :smile:''))"
    by (simp add: some_token_resolves_def demo_bot_def demo_message_def demo_catalog_def
        py_split_def is_space_def is_token_def slice_1_m1_def)
  have hook: "fst (get_webhook (demo_env\<lparr>webhook_send_result := Inl HTTPException\<rparr>) demo_bot
        (demo_message ''hi :smile:'')) = Inr \<lparr>wh_id = 12, wh_user_id = 1\<rparr>"
    by (simp add: get_webhook_def demo_env_def demo_bot_def)
  have fails: "webhook_send_result (demo_env\<lparr>webhook_send_result := Inl HTTPException\<rparr>)
               = Inl HTTPException"
    by simp
  have send_part:
    "r_result (animated_emojis (demo_env\<lparr>webhook_send_result := Inl HTTPException\<rparr>) demo_bot
        (demo_message ''hi :smile:'')) = Inl HTTPException
     \<and> MessageDelete \<notin> set (r_effects (animated_emojis
        (demo_env\<lparr>webhook_send_result := Inl HTTPException\<rparr>) demo_bot
        (demo_message ''hi :smile:'')))"
    using relay_failure_ends_handler
      [where ev = "demo_env\<lparr>webhook_send_result := Inl HTTPException\<rparr>" and b = demo_bot
         and m = "demo_message ''hi :smile:''" and wh = "\<lparr>wh_id = 12, wh_user_id = 1\<rparr>"
         and err = HTTPException]
      hit hook fails
    by blast
  have listed: "webhooks_result
        (demo_env\<lparr>webhooks_result := Inr [\<lparr>wh_id = 11, wh_user_id = 99\<rparr>],
                  avatar_read_result := Inl HTTPException\<rparr>)
      = Inr [\<lparr>wh_id = 11, wh_user_id = 99\<rparr>]"
    by simp
  have foreign: "\<forall>x\<in>set [\<lparr>wh_id = 11, wh_user_id = 99\<rparr>]. wh_user_id x \<noteq> bot_user_id demo_bot"
    by (simp add: demo_bot_def)
  have unread: "avatar_read_result
        (demo_env\<lparr>webhooks_result := Inr [\<lparr>wh_id = 11, wh_user_id = 99\<rparr>],
                  avatar_read_result := Inl HTTPException\<rparr>)
      = Inl HTTPException"
    by simp
  have read_part:
    "r_result (animated_emojis
        (demo_env\<lparr>webhooks_result := Inr [\<lparr>wh_id = 11, wh_user_id = 99\<rparr>],
                  avatar_read_result := Inl HTTPException\<rparr>) demo_bot
        (demo_message ''hi :smile:'')) = Inl HTTPException
     \<and> r_effects (animated_emojis
        (demo_env\<lparr>webhooks_result := Inr [\<lparr>wh_id = 11, wh_user_id = 99\<rparr>],
                  avatar_read_result := Inl HTTPException\<rparr>) demo_bot
        (demo_message ''hi :smile:''))
       = [ChannelWebhooks (channel (demo_message ''hi :smile:'')),
          AvatarRead (display_avatar (author (demo_message ''hi :smile:'')))]"
    using relay_failure_ends_handler
      [where ev = "demo_env\<lparr>webhooks_result := Inr [\<lparr>wh_id = 11, wh_user_id = 99\<rparr>],
                            avatar_read_result := Inl HTTPException\<rparr>"
         and b = demo_bot and m = "demo_message ''hi :smile:''"
         and whs = "[\<lparr>wh_id = 11, wh_user_id = 99\<rparr>]" and err = HTTPException]
      hit listed foreign unread
    by blast
  have where_from: "channel (demo_message ''hi :smile:'') = 5
      \<and> display_avatar (author (demo_message ''hi :smile:'')) = ''cdn/ann.png''"
    by (simp add: demo_message_def)
  show ?thesis
    using hit hook send_part read_part where_from by simp
qed

text \<open>
  The claim as written has every failure caught at its step. On the example platform with
  a send that fails, the handler does not return normally: the exception is its result.
\<close>

theorem relay_send_failure_not_caught_counterexample:
  "r_result (animated_emojis (demo_env\<lparr>webhook_send_result := Inl HTTPException\<rparr>) demo_bot
     (demo_message ''hi :smile:'')) = Inl HTTPException
   \<and> r_result (animated_emojis (demo_env\<lparr>webhook_send_result := Inl HTTPException\<rparr>) demo_bot
     (demo_message ''hi :smile:'')) \<noteq> Inr ()
   \<and> r_effects (animated_emojis (demo_env\<lparr>webhook_send_result := Inl HTTPException\<rparr>) demo_bot
     (demo_message ''hi :smile:'')) =
       [ChannelWebhooks 5, WebhookSend 12 ''hi <a:smile:7>'' ''ann'' ''cdn/ann.png'']"
  by (simp add: animated_emojis_def scan_message_def scan_start_def py_split_def is_space_def
      get_emoji_def slice_1_m1_def Let_def demo_bot_def demo_message_def demo_catalog_def
      get_webhook_def send_and_delete_def demo_env_def)

subsection \<open>Messages sent by a webhook\<close>

text \<open>
  Claim C10. A message with a webhook id is never rewritten, sent again or deleted by the
  message handler, whatever its text: the handler leaves the message as it is, looks up
  no name, and its only effects, if any, are the two of a bump confirmation. A message
  that the relay has sent through its webhook carries the id of that webhook, so it is
  not relayed again. The id counts as present when it is not \<^verbatim>\<open>None\<close> and not 0, as the
  test of the code has it.
\<close>

theorem webhook_message_never_relayed:
  "truthy_id (webhook_id m) \<longrightarrow>
     m_message (on_message K ev now b m) = m
     \<and> m_lookups (on_message K ev now b m) = []
     \<and> set (m_effects (on_message K ev now b m))
         \<subseteq> {UpdateBumpTime now, Dispatch ''bump_done'' 7200}
     \<and> MessageDelete \<notin> set (m_effects (on_message K ev now b m))
     \<and> (\<forall>e\<in>set (m_effects (on_message K ev now b m)). \<not> is_send e)"
proof
  assume hook: "truthy_id (webhook_id m)"
  have msg: "m_message (on_message K ev now b m) = m"
    using hook by (simp add: on_message_def finished_def split: list.splits option.splits)
  have lookups: "m_lookups (on_message K ev now b m) = []"
    using hook by (simp add: on_message_def finished_def split: list.splits option.splits)
  have effs: "set (m_effects (on_message K ev now b m))
         \<subseteq> {UpdateBumpTime now, Dispatch ''bump_done'' 7200}"
    using hook by (simp add: on_message_def finished_def split: list.splits option.splits)
  have "MessageDelete \<notin> set (m_effects (on_message K ev now b m))"
    using effs by auto
  moreover have "\<forall>e\<in>set (m_effects (on_message K ev now b m)). \<not> is_send e"
    using effs by auto
  ultimately show "m_message (on_message K ev now b m) = m
     \<and> m_lookups (on_message K ev now b m) = []
     \<and> set (m_effects (on_message K ev now b m))
         \<subseteq> {UpdateBumpTime now, Dispatch ''bump_done'' 7200}
     \<and> MessageDelete \<notin> set (m_effects (on_message K ev now b m))
     \<and> (\<forall>e\<in>set (m_effects (on_message K ev now b m)). \<not> is_send e)"
    using msg lookups effs by blast
qed

text \<open>
  The message that the relay has sent through webhook 12 comes back with that id: its
  token would resolve, and the handler does nothing.
\<close>

theorem webhook_message_never_relayed_witness:
  "truthy_id (webhook_id ((demo_message ''hi :smile:'')\<lparr>webhook_id := Some 12\<rparr>))
   \<and> m_message (on_message demo_constants demo_env 0 demo_bot
        ((demo_message ''hi :smile:'')\<lparr>webhook_id := Some 12\<rparr>))
       = (demo_message ''hi :smile:'')\<lparr>webhook_id := Some 12\<rparr>
   \<and> m_effects (on_message demo_constants demo_env 0 demo_bot
        ((demo_message ''hi :smile:'')\<lparr>webhook_id := Some 12\<rparr>)) = []
   \<and> m_lookups (on_message demo_constants demo_env 0 demo_bot
        ((demo_message ''hi :smile:'')\<lparr>webhook_id := Some 12\<rparr>)) = []"
  using webhook_message_never_relayed
    [where m = "(demo_message ''hi :smile:'')\<lparr>webhook_id := Some 12\<rparr>" and K = demo_constants
       and ev = demo_env and now = 0 and b = demo_bot]
  by (simp add: truthy_id_def on_message_def finished_def demo_message_def demo_constants_def
      demo_bot_def)

subsection \<open>The bump confirmation\<close>

text \<open>
  Claim C7. On every confirmed external trigger the handler first writes the current time
  to the timestamp store and then dispatches \<open>bump_done\<close> with the full period of 7200
  seconds, which arms a fresh timer for 7200 seconds; a read of the store then returns the
  new time. A trigger is confirmed by the test of lines 232 to 239, on a message that
  reaches it: a webhook id, the listing service as author, and a first embed that says
  \<open>Bump done\<close>. The maintenance gate of lines 228 to 230 lies upstream of that test.
\<close>

theorem bump_confirmation_stores_then_arms:
  "\<not> (MAINTENANCE_MODE b \<and> Some (channel m) \<noteq> MAINTENANCE_CHANNEL b)
   \<and> truthy_id (webhook_id m) \<and> user_id (author m) = DISBOARD_ID K
   \<and> embeds m = Some description # others \<and> py_in ''Bump done'' description \<longrightarrow>
     m_result (on_message K ev now b m) = Inr ()
     \<and> m_effects (on_message K ev now b m) = [UpdateBumpTime now, Dispatch ''bump_done'' 7200]
     \<and> get_bump_time (bump_timer (m_bot (on_message K ev now b m))) = Some now
     \<and> t_effects (on_bump_done_arm 7200 (m_bot (on_message K ev now b m))) = [Sleep 7200]
     \<and> running (bump_timer (t_bot (on_bump_done_arm 7200 (m_bot (on_message K ev now b m)))))
     \<and> get_bump_time (bump_timer (t_bot (on_bump_done_arm 7200 (m_bot (on_message K ev now b m)))))
         = Some now"
proof
  assume h: "\<not> (MAINTENANCE_MODE b \<and> Some (channel m) \<noteq> MAINTENANCE_CHANNEL b)
   \<and> truthy_id (webhook_id m) \<and> user_id (author m) = DISBOARD_ID K
   \<and> embeds m = Some description # others \<and> py_in ''Bump done'' description"
  have out: "on_message K ev now b m =
      (finished b m)
        \<lparr>m_bot := b\<lparr>bump_timer := update_bump_time now (bump_timer b)\<rparr>,
         m_effects := [UpdateBumpTime now, Dispatch ''bump_done'' 7200]\<rparr>"
    using h unfolding on_message_def by auto
  show "m_result (on_message K ev now b m) = Inr ()
     \<and> m_effects (on_message K ev now b m) = [UpdateBumpTime now, Dispatch ''bump_done'' 7200]
     \<and> get_bump_time (bump_timer (m_bot (on_message K ev now b m))) = Some now
     \<and> t_effects (on_bump_done_arm 7200 (m_bot (on_message K ev now b m))) = [Sleep 7200]
     \<and> running (bump_timer (t_bot (on_bump_done_arm 7200 (m_bot (on_message K ev now b m)))))
     \<and> get_bump_time (bump_timer (t_bot (on_bump_done_arm 7200 (m_bot (on_message K ev now b m)))))
         = Some now"
    unfolding out
    by (simp add: finished_def get_bump_time_def update_bump_time_def on_bump_done_arm_def
        set_running_def)
qed

text \<open>
  The scenario of the specification: the last trigger was 1000 seconds before the restart,
  so the initial delay was 6200; a confirmation then arrives at time 5000000000.
\<close>

theorem bump_confirmation_stores_then_arms_witness:
  "\<not> (MAINTENANCE_MODE demo_bot \<and> Some (channel bump_message) \<noteq> MAINTENANCE_CHANNEL demo_bot)
   \<and> truthy_id (webhook_id bump_message)
   \<and> user_id (author bump_message) = DISBOARD_ID demo_constants
   \<and> py_in ''Bump done'' ''Bump done! :thumbsup:''
   \<and> m_effects (on_message demo_constants demo_env 5000000000 demo_bot bump_message) =
       [UpdateBumpTime 5000000000, Dispatch ''bump_done'' 7200]
   \<and> get_bump_time (bump_timer (m_bot (on_message demo_constants demo_env 5000000000 demo_bot
        bump_message))) = Some 5000000000"
proof -
  have gate: "\<not> (MAINTENANCE_MODE demo_bot
                  \<and> Some (channel bump_message) \<noteq> MAINTENANCE_CHANNEL demo_bot)"
    by (simp add: demo_bot_def)
  have hook: "truthy_id (webhook_id bump_message)"
    by (simp add: truthy_id_def bump_message_def)
  have from_service: "user_id (author bump_message) = DISBOARD_ID demo_constants"
    by (simp add: bump_message_def demo_constants_def)
  have emb: "embeds bump_message = Some ''Bump done! :thumbsup:'' # []"
    by (simp add: bump_message_def)
  have says_done: "py_in ''Bump done'' ''Bump done! :thumbsup:''"
    by simp
  show ?thesis
    using bump_confirmation_stores_then_arms
      [where b = demo_bot and m = bump_message and K = demo_constants
         and description = "''Bump done! :thumbsup:''" and others = "[]" and ev = demo_env
         and now = 5000000000]
      gate hook from_service emb says_done
    by blast
qed

text \<open>
  The gate upstream: in maintenance mode a message posted outside the maintenance channel
  does not reach the confirmation test, so nothing is written and nothing is dispatched.
\<close>

lemma maintenance_gate_is_upstream:
  "m_effects (on_message demo_constants demo_env 5000000000
      (demo_bot\<lparr>MAINTENANCE_MODE := True, MAINTENANCE_CHANNEL := Some 9\<rparr>) bump_message) = []
   \<and> get_bump_time (bump_timer (m_bot (on_message demo_constants demo_env 5000000000
      (demo_bot\<lparr>MAINTENANCE_MODE := True, MAINTENANCE_CHANNEL := Some 9\<rparr>) bump_message)))
      = Some 0
   \<and> get_bump_time (bump_timer (m_bot (on_message demo_constants demo_env 5000000000
      (demo_bot\<lparr>MAINTENANCE_MODE := True, MAINTENANCE_CHANNEL := Some 9\<rparr>) bump_message)))
      \<noteq> Some 5000000000"
  by (simp add: on_message_def finished_def demo_bot_def bump_message_def get_bump_time_def)

subsection \<open>The reminder timer\<close>

lemma fire_running: "running (bump_timer (t_bot (on_bump_done_fire K ev b))) = False"
  by (simp add: on_bump_done_fire_def set_running_def Let_def get_emoji_def
      split: option.splits sum.splits)

lemma fire_bot: "t_bot (on_bump_done_fire K ev b) = set_running False b"
  by (simp add: on_bump_done_fire_def Let_def get_emoji_def split: option.splits sum.splits)

lemma fire_effects:
  "e \<in> set (t_effects (on_bump_done_fire K ev b)) \<Longrightarrow> \<not> arms_timer e"
  by (auto simp: on_bump_done_fire_def Let_def get_emoji_def split: option.splits sum.splits)

lemma fire_sends:
  assumes "get_channel ev (TERMINAL_CHANNEL_ID K) = Some ch"
    and "tc_get_role ch (BUMPER_ROLE_ID K) = Some mention"
    and "emoji_group b ''reminder'' = Some e"
  shows "on_bump_done_fire K ev b =
           \<lparr>t_result = channel_send_result ev, t_bot = set_running False b,
            t_effects = [ChannelSend (tc_id ch) mention (''Bump Reminder '' @ str_emoji e)
                           ''Help grow this server. Run `/bump`'']\<rparr>"
  using assms by (simp add: on_bump_done_fire_def Let_def get_emoji_def set_running_def)

lemma on_message_running:
  "running (bump_timer (m_bot (on_message K ev now b m))) = running (bump_timer b)"
  by (simp add: on_message_def finished_def update_bump_time_def Let_def
      split: list.splits option.splits)

text \<open>
  Claim C6, as the code has it. For every delay, arming the timer sets \<open>running\<close> to true
  and suspends the handler for the delay; when the sleep is over the handler sets
  \<open>running\<close> to false and then emits the reminder (when the channel, the role and the
  \<open>reminder\<close> emoji are found). A message handled during the sleep leaves \<open>running\<close> as it
  is, and so does the arming of another timer; \<open>running\<close> is true from the start of a
  timer until the next time a timer fires, this one or another one.
\<close>

theorem timer_arm_then_fire:
  "on_bump_done_arm delay b =
     \<lparr>t_result = Inr (), t_bot = set_running True b, t_effects = [Sleep delay]\<rparr>
   \<and> running (bump_timer (t_bot (on_bump_done_arm delay b)))
   \<and> running (bump_timer (m_bot (on_message K ev now (t_bot (on_bump_done_arm delay b)) m)))
   \<and> running (bump_timer (t_bot (on_bump_done_arm delay' (t_bot (on_bump_done_arm delay b)))))
   \<and> \<not> running (bump_timer (t_bot (on_bump_done_fire K ev b')))
   \<and> \<not> running (bump_timer (t_bot (on_bump_done K ev delay b)))
   \<and> (get_channel ev (TERMINAL_CHANNEL_ID K) = Some ch
        \<and> tc_get_role ch (BUMPER_ROLE_ID K) = Some mention
        \<and> emoji_group b ''reminder'' = Some e \<longrightarrow>
        on_bump_done K ev delay b =
          \<lparr>t_result = channel_send_result ev, t_bot = set_running False b,
           t_effects = [Sleep delay,
                        ChannelSend (tc_id ch) mention (''Bump Reminder '' @ str_emoji e)
                          ''Help grow this server. Run `/bump`'']\<rparr>)"
proof (intro conjI impI)
  show "on_bump_done_arm delay b =
     \<lparr>t_result = Inr (), t_bot = set_running True b, t_effects = [Sleep delay]\<rparr>"
    by (simp add: on_bump_done_arm_def)
  show armed: "running (bump_timer (t_bot (on_bump_done_arm delay b)))"
    by (simp add: on_bump_done_arm_def set_running_def)
  show "running (bump_timer (m_bot (on_message K ev now (t_bot (on_bump_done_arm delay b)) m)))"
    using armed by (simp add: on_message_running)
  show "running (bump_timer (t_bot (on_bump_done_arm delay' (t_bot (on_bump_done_arm delay b)))))"
    by (simp add: on_bump_done_arm_def set_running_def)
  show "\<not> running (bump_timer (t_bot (on_bump_done_fire K ev b')))"
    by (simp add: fire_running)
  show "\<not> running (bump_timer (t_bot (on_bump_done K ev delay b)))"
    by (simp add: on_bump_done_def Let_def fire_running)
next
  assume h: "get_channel ev (TERMINAL_CHANNEL_ID K) = Some ch
        \<and> tc_get_role ch (BUMPER_ROLE_ID K) = Some mention
        \<and> emoji_group b ''reminder'' = Some e"
  have "emoji_group (set_running True b) ''reminder'' = Some e"
    using h by (simp add: set_running_def)
  then have "on_bump_done_fire K ev (set_running True b) =
           \<lparr>t_result = channel_send_result ev, t_bot = set_running False (set_running True b),
            t_effects = [ChannelSend (tc_id ch) mention (''Bump Reminder '' @ str_emoji e)
                           ''Help grow this server. Run `/bump`'']\<rparr>"
    using h fire_sends by blast
  moreover have "set_running False (set_running True b) = set_running False b"
    by (simp add: set_running_def)
  ultimately show "on_bump_done K ev delay b =
          \<lparr>t_result = channel_send_result ev, t_bot = set_running False b,
           t_effects = [Sleep delay,
                        ChannelSend (tc_id ch) mention (''Bump Reminder '' @ str_emoji e)
                          ''Help grow this server. Run `/bump`'']\<rparr>"
    by (simp add: on_bump_done_def on_bump_done_arm_def Let_def)
qed

theorem timer_arm_then_fire_witness:
  "get_channel demo_env (TERMINAL_CHANNEL_ID demo_constants) \<noteq> None
   \<and> emoji_group demo_bot ''reminder'' = Some (Emoji ''<:reminder:8>'')
   \<and> t_result (on_bump_done demo_constants demo_env 6200 demo_bot) = Inr ()
   \<and> t_effects (on_bump_done demo_constants demo_env 6200 demo_bot) =
       [Sleep 6200,
        ChannelSend 3 ''<@&4>'' ''Bump Reminder <:reminder:8>''
          ''Help grow this server. Run `/bump`'']
   \<and> running (bump_timer (t_bot (on_bump_done_arm 6200 demo_bot)))
   \<and> \<not> running (bump_timer (t_bot (on_bump_done demo_constants demo_env 6200 demo_bot)))"
proof -
  have ch: "get_channel demo_env (TERMINAL_CHANNEL_ID demo_constants) =
      Some \<lparr>tc_id = 3, tc_get_role = (\<lambda>r. if r = 4 then Some ''<@&4>'' else None)\<rparr>"
    by (simp add: demo_env_def demo_constants_def)
  have role: "tc_get_role \<lparr>tc_id = 3, tc_get_role = (\<lambda>r. if r = 4 then Some ''<@&4>'' else None)\<rparr>
      (BUMPER_ROLE_ID demo_constants) = Some ''<@&4>''"
    by (simp add: demo_constants_def)
  have em: "emoji_group demo_bot ''reminder'' = Some (Emoji ''<:reminder:8>'')"
    by (simp add: demo_bot_def demo_catalog_def)
  have ok: "channel_send_result demo_env = Inr ()"
    by (simp add: demo_env_def)
  show ?thesis
    using timer_arm_then_fire
      [where K = demo_constants and ev = demo_env and b = demo_bot and delay = 6200
         and ch = "\<lparr>tc_id = 3, tc_get_role = (\<lambda>r. if r = 4 then Some ''<@&4>'' else None)\<rparr>"
         and mention = "''<@&4>''" and e = "Emoji ''<:reminder:8>''"]
      ch role em ok
    by (simp add: set_running_def)
qed

text \<open>
  The claim as written has \<open>running\<close> true between the start of a timer and its fire. Here
  a timer is armed at startup for 6200 seconds and a second one, after a confirmation,
  for 7200 seconds; when the first fires, the second is still asleep and \<open>running\<close> is
  false.
\<close>

theorem running_false_while_timer_pending_counterexample:
  "t_effects (on_bump_done_arm 7200 (t_bot (on_bump_done_arm 6200 demo_bot))) = [Sleep 7200]
   \<and> running (bump_timer (t_bot (on_bump_done_arm 7200 (t_bot (on_bump_done_arm 6200 demo_bot)))))
   \<and> \<not> running (bump_timer (t_bot (on_bump_done_fire demo_constants demo_env
         (t_bot (on_bump_done_arm 7200 (t_bot (on_bump_done_arm 6200 demo_bot)))))))"
  by (simp add: on_bump_done_arm_def set_running_def fire_running)

subsection \<open>A reminder that cannot be sent\<close>

text \<open>
  Claim C9, as the code has it. The handler sets \<open>running\<close> to false before it emits the
  reminder, so the scheduler is idle whether the emission succeeds or fails, and the part
  of the handler that runs after the sleep dispatches nothing and sleeps no more: a
  failure arms no new timer. The failure itself is not caught in the handler, which has
  no \<^verbatim>\<open>try\<close>: a send that fails, a channel or a role that is not found, or a missing
  \<open>reminder\<close> emoji ends the handler with the exception.
\<close>

theorem failed_notification_leaves_idle:
  "\<not> running (bump_timer (t_bot (on_bump_done_fire K ev b)))
   \<and> bump_time (bump_timer (t_bot (on_bump_done_fire K ev b))) = bump_time (bump_timer b)
   \<and> (\<forall>e\<in>set (t_effects (on_bump_done_fire K ev b)). \<not> arms_timer e)
   \<and> (get_channel ev (TERMINAL_CHANNEL_ID K) = Some ch
        \<and> tc_get_role ch (BUMPER_ROLE_ID K) = Some mention
        \<and> emoji_group b ''reminder'' = Some e
        \<and> channel_send_result ev = Inl err \<longrightarrow>
        t_result (on_bump_done_fire K ev b) = Inl err)
   \<and> (get_channel ev (TERMINAL_CHANNEL_ID K) = None \<longrightarrow>
        t_result (on_bump_done_fire K ev b) = Inl AttributeError
        \<and> t_effects (on_bump_done_fire K ev b) = [])
   \<and> (get_channel ev (TERMINAL_CHANNEL_ID K) = Some ch
        \<and> emoji_group b ''reminder'' = None \<longrightarrow>
        t_result (on_bump_done_fire K ev b) = Inl AttributeError
        \<and> t_effects (on_bump_done_fire K ev b) = [])
   \<and> (get_channel ev (TERMINAL_CHANNEL_ID K) = Some ch
        \<and> emoji_group b ''reminder'' = Some e
        \<and> tc_get_role ch (BUMPER_ROLE_ID K) = None \<longrightarrow>
        t_result (on_bump_done_fire K ev b) = Inl AttributeError
        \<and> t_effects (on_bump_done_fire K ev b) = [])"
proof (intro conjI impI)
  show "\<not> running (bump_timer (t_bot (on_bump_done_fire K ev b)))"
    by (simp add: fire_running)
  show "bump_time (bump_timer (t_bot (on_bump_done_fire K ev b))) = bump_time (bump_timer b)"
    by (simp add: fire_bot set_running_def)
  show "\<forall>e\<in>set (t_effects (on_bump_done_fire K ev b)). \<not> arms_timer e"
    using fire_effects by blast
next
  assume "get_channel ev (TERMINAL_CHANNEL_ID K) = Some ch
        \<and> tc_get_role ch (BUMPER_ROLE_ID K) = Some mention
        \<and> emoji_group b ''reminder'' = Some e
        \<and> channel_send_result ev = Inl err"
  then show "t_result (on_bump_done_fire K ev b) = Inl err"
    using fire_sends [of ev K ch mention b e] by simp
next
  assume none: "get_channel ev (TERMINAL_CHANNEL_ID K) = None"
  show "t_result (on_bump_done_fire K ev b) = Inl AttributeError"
    using none by (simp add: on_bump_done_fire_def Let_def)
  show "t_effects (on_bump_done_fire K ev b) = []"
    using none by (simp add: on_bump_done_fire_def Let_def)
next
  assume h: "get_channel ev (TERMINAL_CHANNEL_ID K) = Some ch
        \<and> emoji_group b ''reminder'' = None"
  show "t_result (on_bump_done_fire K ev b) = Inl AttributeError"
    using h by (simp add: on_bump_done_fire_def Let_def get_emoji_def set_running_def)
  show "t_effects (on_bump_done_fire K ev b) = []"
    using h by (simp add: on_bump_done_fire_def Let_def get_emoji_def set_running_def)
next
  assume h: "get_channel ev (TERMINAL_CHANNEL_ID K) = Some ch
        \<and> emoji_group b ''reminder'' = Some e
        \<and> tc_get_role ch (BUMPER_ROLE_ID K) = None"
  show "t_result (on_bump_done_fire K ev b) = Inl AttributeError"
    using h by (simp add: on_bump_done_fire_def Let_def get_emoji_def set_running_def)
  show "t_effects (on_bump_done_fire K ev b) = []"
    using h by (simp add: on_bump_done_fire_def Let_def get_emoji_def set_running_def)
qed

theorem failed_notification_leaves_idle_witness:
  "channel_send_result (demo_env\<lparr>channel_send_result := Inl HTTPException\<rparr>) = Inl HTTPException
   \<and> t_result (on_bump_done_fire demo_constants
        (demo_env\<lparr>channel_send_result := Inl HTTPException\<rparr>)
        (t_bot (on_bump_done_arm 0 demo_bot))) = Inl HTTPException
   \<and> \<not> running (bump_timer (t_bot (on_bump_done_fire demo_constants
        (demo_env\<lparr>channel_send_result := Inl HTTPException\<rparr>)
        (t_bot (on_bump_done_arm 0 demo_bot)))))"
proof -
  have ch: "get_channel (demo_env\<lparr>channel_send_result := Inl HTTPException\<rparr>)
              (TERMINAL_CHANNEL_ID demo_constants) =
      Some \<lparr>tc_id = 3, tc_get_role = (\<lambda>r. if r = 4 then Some ''<@&4>'' else None)\<rparr>"
    by (simp add: demo_env_def demo_constants_def)
  have role: "tc_get_role \<lparr>tc_id = 3, tc_get_role = (\<lambda>r. if r = 4 then Some ''<@&4>'' else None)\<rparr>
      (BUMPER_ROLE_ID demo_constants) = Some ''<@&4>''"
    by (simp add: demo_constants_def)
  have em: "emoji_group (t_bot (on_bump_done_arm 0 demo_bot)) ''reminder''
            = Some (Emoji ''<:reminder:8>'')"
    by (simp add: on_bump_done_arm_def set_running_def demo_bot_def demo_catalog_def)
  have fails: "channel_send_result (demo_env\<lparr>channel_send_result := Inl HTTPException\<rparr>)
               = Inl HTTPException"
    by simp
  show ?thesis
    using failed_notification_leaves_idle
      [where K = demo_constants and ev = "demo_env\<lparr>channel_send_result := Inl HTTPException\<rparr>"
         and b = "t_bot (on_bump_done_arm 0 demo_bot)"
         and ch = "\<lparr>tc_id = 3, tc_get_role = (\<lambda>r. if r = 4 then Some ''<@&4>'' else None)\<rparr>"
         and mention = "''<@&4>''" and e = "Emoji ''<:reminder:8>''" and err = HTTPException]
      ch role em fails
    by blast
qed

text \<open>
  The claim as written has the failure caught and logged by the scheduler. With a send
  that fails, the handler does not return normally: the exception is its result, after
  the attempt to send.
\<close>

theorem failed_notification_not_caught_counterexample:
  "t_result (on_bump_done demo_constants (demo_env\<lparr>channel_send_result := Inl HTTPException\<rparr>)
      0 demo_bot) = Inl HTTPException
   \<and> t_result (on_bump_done demo_constants (demo_env\<lparr>channel_send_result := Inl HTTPException\<rparr>)
      0 demo_bot) \<noteq> Inr ()
   \<and> t_effects (on_bump_done demo_constants (demo_env\<lparr>channel_send_result := Inl HTTPException\<rparr>)
      0 demo_bot) =
       [Sleep 0,
        ChannelSend 3 ''<@&4>'' ''Bump Reminder <:reminder:8>''
          ''Help grow this server. Run `/bump`'']"
  by (simp add: on_bump_done_def on_bump_done_arm_def on_bump_done_fire_def set_running_def
      Let_def get_emoji_def demo_env_def demo_constants_def demo_bot_def demo_catalog_def)

end
